theory Spec2Isabelle
  imports Complex_Main "HOL-Library.Char_ord" "HOL-Library.List_Lexorder"
begin

section \<open>Python and pandas primitives used by the scripts\<close>

text \<open>
  The scripts read a FHIR-shaped JSON document, flatten it into pandas data frames and
  derive risk flags. Every record of the document is a JSON object. A key whose value the
  scripts only copy into a frame (an identifier, a status, a text, a date, a quantity's
  number or unit) is absent (\<open>None\<close>) or carries a value of the expected type, and so is
  a key that holds a list. A key of an observation, a medication request or an allergy
  whose value the scripts call \<open>.get\<close> on (\<open>code\<close>, \<open>valueQuantity\<close>, \<open>subject\<close>,
  \<open>patient\<close> and the like) is absent, holds an object, or holds a value that is not an
  object, on which the call raises AttributeError. The \<open>reference\<close> of a subject is any
  JSON value. Strings are byte strings; the order on them is the lexicographic order of
  the bytes, which for UTF-8 text is Python's order on \<open>str\<close>.

  A number is the rational value of the double that \<open>json.load\<close> has put into the
  document. The only arithmetic on lab values is the comparison with the thresholds 6.5
  and 240, which is exact on doubles.
\<close>

datatype error = KeyError string | IndexError | TypeError | AttributeError

text \<open>
  A JSON value as \<open>json.load\<close> returns it, an object as the list of its entries, and
  Python's truth test on it: \<open>None\<close>, \<open>False\<close>, zero and every empty string, list and
  dictionary are false.
\<close>

datatype json =
    JNull
  | JBool bool
  | JNumber rat
  | JString string
  | JArray "json list"
  | JObject "(string \<times> json) list"

fun truthy :: "json \<Rightarrow> bool" where
  "truthy JNull = False"
| "truthy (JBool b) = b"
| "truthy (JNumber n) = (n \<noteq> 0)"
| "truthy (JString s) = (s \<noteq> [])"
| "truthy (JArray xs) = (xs \<noteq> [])"
| "truthy (JObject d) = (d \<noteq> [])"

text \<open>
  The value under a key that should hold an object: the key is absent, or it holds an
  object, or it holds another value (\<open>null\<close>, a boolean, a number, a string, a list).
  \<open>record.get(key, {}).get(...)\<close> reads the default when the key is absent and raises
  AttributeError when the value is not an object.
\<close>

datatype 'a slot = Absent | Present 'a | NotObject

definition get_object :: "'a slot \<Rightarrow> 'a \<Rightarrow> error + 'a" where
  "get_object field fallback =
     (case field of
        Absent \<Rightarrow> Inr fallback
      | Present v \<Rightarrow> Inr v
      | NotObject \<Rightarrow> Inl AttributeError)"

text \<open>\<open>d.get(key, default)\<close> on a key that is absent or present.\<close>

definition get :: "'a option \<Rightarrow> 'a \<Rightarrow> 'a" where
  "get field fallback = (case field of None \<Rightarrow> fallback | Some v \<Rightarrow> v)"

text \<open>\<open>xs[0]\<close>: raises IndexError on an empty list.\<close>

definition index0 :: "'a list \<Rightarrow> error + 'a" where
  "index0 xs = (case xs of [] \<Rightarrow> Inl IndexError | x # _ \<Rightarrow> Inr x)"

text \<open>\<open>xs[-1]\<close>: raises IndexError on an empty list.\<close>

definition index_last :: "'a list \<Rightarrow> error + 'a" where
  "index_last xs = (if xs = [] then Inl IndexError else Inr (last xs))"

text \<open>\<open>sep.join(xs)\<close>.\<close>

fun join :: "string \<Rightarrow> string list \<Rightarrow> string" where
  "join sep [] = []"
| "join sep [x] = x"
| "join sep (x # y # ys) = x @ sep @ join sep (y # ys)"

text \<open>\<open>s.split(sep)\<close> for a one-character separator: always at least one piece.\<close>

fun split :: "char \<Rightarrow> string \<Rightarrow> string list" where
  "split sep [] = [[]]"
| "split sep (c # cs) =
     (if c = sep then [] # split sep cs
      else (case split sep cs of [] \<Rightarrow> [[c]] | w # ws \<Rightarrow> (c # w) # ws))"

text \<open>\<open>s.rstrip(chars)\<close>: drops the trailing characters that belong to \<open>chars\<close>.\<close>

definition rstrip :: "string \<Rightarrow> string \<Rightarrow> string" where
  "rstrip chars s = rev (dropWhile (\<lambda>c. c \<in> set chars) (rev s))"

text \<open>
  \<open>s.lower()\<close> on the ASCII letters. The scripts compare the result with the ASCII
  literals \<open>hemoglobin a1c\<close> and \<open>cholesterol\<close> only; no non-ASCII character lowers to
  a letter of these two words, so leaving other bytes unchanged decides the same
  comparisons.
\<close>

definition lower_char :: "char \<Rightarrow> char" where
  "lower_char c =
     (case map_of (zip ''ABCDEFGHIJKLMNOPQRSTUVWXYZ'' ''abcdefghijklmnopqrstuvwxyz'') c of
        None \<Rightarrow> c | Some l \<Rightarrow> l)"

definition lower :: "string \<Rightarrow> string" where
  "lower s = map lower_char s"

text \<open>
  A \<open>for\<close> loop that appends one row per record: the first exception leaves the loop
  and the function.
\<close>

fun for_each :: "('a \<Rightarrow> error + 'b) \<Rightarrow> 'a list \<Rightarrow> error + 'b list" where
  "for_each body [] = Inr []"
| "for_each body (x # xs) =
     (case body x of
        Inl e \<Rightarrow> Inl e
      | Inr row \<Rightarrow> (case for_each body xs of Inl e \<Rightarrow> Inl e | Inr done_rows \<Rightarrow> Inr (row # done_rows)))"

text \<open>
  A data frame: its column labels and its rows. \<open>pd.DataFrame(list_of_dicts)\<close> takes the
  columns from the dictionaries' keys, so the frame of an empty list has no column at
  all. \<open>df[label]\<close> raises KeyError for a label that is not a column.
\<close>

record 'a frame =
  columns :: "string list"
  rows :: "'a list"

definition DataFrame :: "string list \<Rightarrow> 'a list \<Rightarrow> 'a frame" where
  "DataFrame keys dicts = \<lparr>columns = (if dicts = [] then [] else keys), rows = dicts\<rparr>"

definition getitem :: "'a frame \<Rightarrow> string \<Rightarrow> ('a \<Rightarrow> 'b) \<Rightarrow> error + 'b list" where
  "getitem df label field =
     (if label \<in> set (columns df) then Inr (map field (rows df)) else Inl (KeyError label))"

section \<open>load_data.py: the raw document and its normalisation\<close>

datatype HumanName = HumanName
  (HumanName_family: "string option")
  (HumanName_given: "string list option")

datatype Address = Address
  (Address_city: "string option")
  (Address_state: "string option")
  (Address_postalCode: "string option")

datatype Patient = Patient
  (Patient_id: "string option")
  (Patient_name: "HumanName list option")
  (Patient_gender: "string option")
  (Patient_birthDate: "string option")
  (Patient_address: "Address list option")

datatype CodeableConcept = CodeableConcept (CodeableConcept_text: "string option")

datatype Quantity = Quantity
  (Quantity_value: "rat option")
  (Quantity_unit: "string option")

datatype Reference = Reference (Reference_reference: "json option")

datatype Observation = Observation
  (Observation_id: "string option")
  (Observation_status: "string option")
  (Observation_code: "CodeableConcept slot")
  (Observation_valueQuantity: "Quantity slot")
  (Observation_effectiveDateTime: "string option")
  (Observation_subject: "Reference slot")

datatype MedicationRequest = MedicationRequest
  (MedicationRequest_id: "string option")
  (MedicationRequest_status: "string option")
  (MedicationRequest_medicationCodeableConcept: "CodeableConcept slot")
  (MedicationRequest_subject: "Reference slot")
  (MedicationRequest_authoredOn: "string option")

datatype Reaction = Reaction (Reaction_manifestation: "CodeableConcept list option")

datatype AllergyIntolerance = AllergyIntolerance
  (AllergyIntolerance_id: "string option")
  (AllergyIntolerance_clinicalStatus: "CodeableConcept slot")
  (AllergyIntolerance_code: "CodeableConcept slot")
  (AllergyIntolerance_reaction: "Reaction list option")
  (AllergyIntolerance_patient: "Reference slot")

text \<open>The document: four optional top-level arrays.\<close>

record document =
  patients :: "Patient list option"
  observations :: "Observation list option"
  medications :: "MedicationRequest list option"
  allergies :: "AllergyIntolerance list option"

text \<open>Rows of the four normalised frames. Every frame has the column \<open>patient_id\<close>.\<close>

record keyed =
  patient_id :: string

record patient = keyed +
  full_name :: string
  family_name :: string
  given_name :: string
  gender :: string
  birthdate :: string
  city :: string
  state :: string
  postal_code :: string

record observation = keyed +
  observation_id :: string
  status :: string
  code :: string
  obs_value :: "rat option"
  unit :: string
  date :: string

record medication = keyed +
  medication_id :: string
  medication_status :: string
  medication_name :: string
  medication_date :: string

record allergy = keyed +
  allergy_id :: string
  allergy_status :: string
  allergy_type :: string
  manifestation :: string

text \<open>The body of the loop of \<open>normalize_patients\<close>.\<close>

definition normalize_patient :: "Patient \<Rightarrow> error + patient" where
  "normalize_patient p =
     (let pid = get (Patient_id p) '''' in
      case index0 (get (Patient_name p) [HumanName None None]) of
        Inl e \<Rightarrow> Inl e
      | Inr name \<Rightarrow>
          (let family = get (HumanName_family name) '''';
               given_names = get (HumanName_given name) [''''];
               full = join '' '' given_names @ '' '' @ family;
               gender_text = get (Patient_gender p) '''';
               birth = get (Patient_birthDate p) ''''
           in case index0 (get (Patient_address p) [Address None None None]) of
                Inl e \<Rightarrow> Inl e
              | Inr address \<Rightarrow>
                  Inr \<lparr>patient_id = pid,
                       full_name = full,
                       family_name = family,
                       given_name = (if given_names \<noteq> [] then hd given_names else ''''),
                       gender = gender_text,
                       birthdate = birth,
                       city = get (Address_city address) '''',
                       state = get (Address_state address) '''',
                       postal_code = get (Address_postalCode address) ''''\<rparr>))"

definition patient_columns :: "string list" where
  "patient_columns = [''patient_id'', ''full_name'', ''family_name'', ''given_name'',
     ''gender'', ''birthdate'', ''city'', ''state'', ''postal_code'']"

definition normalize_patients :: "document \<Rightarrow> error + patient frame" where
  "normalize_patients data =
     (case for_each normalize_patient (get (patients data) []) of
        Inl e \<Rightarrow> Inl e
      | Inr dicts \<Rightarrow> Inr (DataFrame patient_columns dicts))"

text \<open>
  \<open>patient_ref.split('/')[-1] if patient_ref else ''\<close>, shared by the observation,
  medication and allergy loops. \<open>patient_ref\<close> is whatever the document holds under
  \<open>reference\<close>: a value that tests false gives the empty key, a non-empty string its
  last segment, and any other value raises AttributeError, as it has no \<open>split\<close>.
\<close>

definition reference_id :: "json \<Rightarrow> error + string" where
  "reference_id patient_ref =
     (if truthy patient_ref
      then (case patient_ref of
              JString s \<Rightarrow> index_last (split CHR ''/'' s)
            | _ \<Rightarrow> Inl AttributeError)
      else Inr '''')"

definition normalize_observation :: "Observation \<Rightarrow> error + observation" where
  "normalize_observation obs =
     (case get_object (Observation_code obs) (CodeableConcept None) of
        Inl e \<Rightarrow> Inl e
      | Inr code_object \<Rightarrow>
     (case get_object (Observation_valueQuantity obs) (Quantity None None) of
        Inl e \<Rightarrow> Inl e
      | Inr value_quantity \<Rightarrow>
     (case get_object (Observation_subject obs) (Reference None) of
        Inl e \<Rightarrow> Inl e
      | Inr subject \<Rightarrow>
     (let patient_ref = get (Reference_reference subject) (JString '''')
      in case reference_id patient_ref of
           Inl e \<Rightarrow> Inl e
         | Inr pid \<Rightarrow>
             Inr \<lparr>patient_id = pid,
                  observation_id = get (Observation_id obs) '''',
                  status = get (Observation_status obs) '''',
                  code = get (CodeableConcept_text code_object) '''',
                  obs_value = Quantity_value value_quantity,
                  unit = get (Quantity_unit value_quantity) '''',
                  date = get (Observation_effectiveDateTime obs) ''''\<rparr>))))"

definition observation_columns :: "string list" where
  "observation_columns =
     [''observation_id'', ''status'', ''code'', ''value'', ''unit'', ''date'', ''patient_id'']"

definition normalize_observations :: "document \<Rightarrow> error + observation frame" where
  "normalize_observations data =
     (case for_each normalize_observation (get (observations data) []) of
        Inl e \<Rightarrow> Inl e
      | Inr dicts \<Rightarrow> Inr (DataFrame observation_columns dicts))"

definition normalize_medication :: "MedicationRequest \<Rightarrow> error + medication" where
  "normalize_medication med =
     (case get_object (MedicationRequest_medicationCodeableConcept med) (CodeableConcept None) of
        Inl e \<Rightarrow> Inl e
      | Inr concept \<Rightarrow>
     (case get_object (MedicationRequest_subject med) (Reference None) of
        Inl e \<Rightarrow> Inl e
      | Inr subject \<Rightarrow>
     (let patient_ref = get (Reference_reference subject) (JString '''')
      in case reference_id patient_ref of
           Inl e \<Rightarrow> Inl e
         | Inr pid \<Rightarrow>
             Inr \<lparr>patient_id = pid,
                  medication_id = get (MedicationRequest_id med) '''',
                  medication_status = get (MedicationRequest_status med) '''',
                  medication_name = get (CodeableConcept_text concept) '''',
                  medication_date = get (MedicationRequest_authoredOn med) ''''\<rparr>)))"

definition medication_columns :: "string list" where
  "medication_columns =
     [''medication_id'', ''status'', ''medication_name'', ''date'', ''patient_id'']"

definition normalize_medications :: "document \<Rightarrow> error + medication frame" where
  "normalize_medications data =
     (case for_each normalize_medication (get (medications data) []) of
        Inl e \<Rightarrow> Inl e
      | Inr dicts \<Rightarrow> Inr (DataFrame medication_columns dicts))"

text \<open>
  \<open>reactions[0].get('manifestation', [{}])[0].get('text', '') if reactions else ''\<close>:
  an empty \<open>reaction\<close> list is guarded, an empty \<open>manifestation\<close> list is not.
\<close>

definition reaction_text :: "Reaction list \<Rightarrow> error + string" where
  "reaction_text reactions =
     (if reactions \<noteq> [] then
        (case index0 reactions of
           Inl e \<Rightarrow> Inl e
         | Inr r \<Rightarrow>
             (case index0 (get (Reaction_manifestation r) [CodeableConcept None]) of
                Inl e \<Rightarrow> Inl e
              | Inr m \<Rightarrow> Inr (get (CodeableConcept_text m) '''')))
      else Inr '''')"

definition normalize_allergy :: "AllergyIntolerance \<Rightarrow> error + allergy" where
  "normalize_allergy a =
     (case get_object (AllergyIntolerance_clinicalStatus a) (CodeableConcept None) of
        Inl e \<Rightarrow> Inl e
      | Inr clinical_status \<Rightarrow>
     (case get_object (AllergyIntolerance_code a) (CodeableConcept None) of
        Inl e \<Rightarrow> Inl e
      | Inr code_object \<Rightarrow>
     (let reactions = get (AllergyIntolerance_reaction a) [Reaction None]
      in case reaction_text reactions of
           Inl e \<Rightarrow> Inl e
         | Inr manifestation_text \<Rightarrow>
     (case get_object (AllergyIntolerance_patient a) (Reference None) of
        Inl e \<Rightarrow> Inl e
      | Inr subject \<Rightarrow>
     (let patient_ref = get (Reference_reference subject) (JString '''')
      in case reference_id patient_ref of
           Inl e \<Rightarrow> Inl e
         | Inr pid \<Rightarrow>
             Inr \<lparr>patient_id = pid,
                  allergy_id = get (AllergyIntolerance_id a) '''',
                  allergy_status = get (CodeableConcept_text clinical_status) '''',
                  allergy_type = get (CodeableConcept_text code_object) '''',
                  manifestation = manifestation_text\<rparr>)))))"

definition allergy_columns :: "string list" where
  "allergy_columns = [''allergy_id'', ''status'', ''allergy_type'', ''manifestation'', ''patient_id'']"

definition normalize_allergies :: "document \<Rightarrow> error + allergy frame" where
  "normalize_allergies data =
     (case for_each normalize_allergy (get (allergies data) []) of
        Inl e \<Rightarrow> Inl e
      | Inr dicts \<Rightarrow> Inr (DataFrame allergy_columns dicts))"

text \<open>
  \<open>load_and_normalize_data\<close> after the file has been read: the four normalisers in
  the order of the source.
\<close>

definition load_and_normalize_data ::
  "document \<Rightarrow> error + (patient frame \<times> observation frame \<times> medication frame \<times> allergy frame)" where
  "load_and_normalize_data data =
     (case normalize_patients data of
        Inl e \<Rightarrow> Inl e
      | Inr patients_df \<Rightarrow>
          (case normalize_observations data of
             Inl e \<Rightarrow> Inl e
           | Inr observations_df \<Rightarrow>
               (case normalize_medications data of
                  Inl e \<Rightarrow> Inl e
                | Inr medications_df \<Rightarrow>
                    (case normalize_allergies data of
                       Inl e \<Rightarrow> Inl e
                     | Inr allergies_df \<Rightarrow>
                         Inr (patients_df, observations_df, medications_df, allergies_df)))))"

section \<open>process_patients.py: age and age bracket\<close>

text \<open>
  \<open>calculate_age\<close> reads the clock (\<open>datetime.now()\<close>) and parses with
  \<open>datetime.strptime(birthdate, '%Y-%m-%d')\<close>. Both come from the standard library and
  are parameters here: \<open>today\<close> is the processing date, and \<open>strptime\<close> returns \<open>None\<close>
  where the library raises ValueError, which the function catches.
\<close>

record ymd =
  year :: int
  month :: int
  day :: int

definition calculate_age :: "(string \<Rightarrow> ymd option) \<Rightarrow> ymd \<Rightarrow> string \<Rightarrow> int option" where
  "calculate_age strptime today birth =
     (if birth = [] then None
      else (case strptime birth of
              None \<Rightarrow> None
            | Some birth_date \<Rightarrow>
                Some (year today - year birth_date -
                  (if month today < month birth_date \<or>
                      (month today = month birth_date \<and> day today < day birth_date)
                   then 1 else 0))))"

text \<open>
  \<open>pd.cut(x, bins, labels, right=False)\<close> on one value: the label of the interval
  \<open>[bins[i], bins[i+1])\<close> that holds the value, and NaN (\<open>None\<close>) when no interval does.
\<close>

fun cut :: "int list \<Rightarrow> string list \<Rightarrow> int \<Rightarrow> string option" where
  "cut (lo # hi # edges) (l # ls) x =
     (if lo \<le> x \<and> x < hi then Some l else cut (hi # edges) ls x)"
| "cut _ _ x = None"

definition bins :: "int list" where
  "bins = [0, 18, 35, 50, 65, 120]"

definition labels :: "string list" where
  "labels = [''0-18'', ''19-35'', ''36-50'', ''51-65'', ''65+'']"

record enriched = patient +
  age :: "int option"
  age_group :: "string option"

text \<open>
  \<open>enrich_patient_data\<close>. \<open>Series.apply\<close> yields a numeric column (NaN for \<open>None\<close>) as
  soon as one age is a number, and \<open>pd.cut\<close> maps NaN to NaN. When no birthdate of a
  non-empty frame gives an age, the column holds only \<open>None\<close> objects and \<open>pd.cut\<close>
  raises TypeError on comparing them with the integer bins.
\<close>

definition enrich_patient_data ::
  "(string \<Rightarrow> ymd option) \<Rightarrow> ymd \<Rightarrow> patient frame \<Rightarrow> error + enriched frame" where
  "enrich_patient_data strptime today patients_df =
     (case getitem patients_df ''birthdate'' birthdate of
        Inl e \<Rightarrow> Inl e
      | Inr birthdates \<Rightarrow>
          (let ages = map (calculate_age strptime today) birthdates in
           if ages \<noteq> [] \<and> list_all (\<lambda>a. a = None) ages then Inl TypeError
           else Inr \<lparr>columns = columns patients_df @ [''age'', ''age_group''],
                     rows = map (\<lambda>p.
                       (let a = calculate_age strptime today (birthdate p)
                        in patient.extend p
                             \<lparr>age = a,
                              age_group = (case a of None \<Rightarrow> None | Some n \<Rightarrow> cut bins labels n)\<rparr>))
                       (rows patients_df)\<rparr>))"

section \<open>risk_scoring.py\<close>

definition DIABETES_HBA1C_THRESHOLD :: rat where
  "DIABETES_HBA1C_THRESHOLD = 13 / 2"

definition CARDIOVASCULAR_CHOLESTEROL_THRESHOLD :: rat where
  "CARDIOVASCULAR_CHOLESTEROL_THRESHOLD = 240"

text \<open>
  \<open>sort_values(['patient_id', 'date'], ascending=[True, False])\<close>: a stable sort, rows
  that agree on both keys keep their input order. \<open>precedes a b\<close> says that row \<open>a\<close>
  does not sort after row \<open>b\<close>.
\<close>

definition precedes :: "observation \<Rightarrow> observation \<Rightarrow> bool" where
  "precedes a b =
     (patient_id a < patient_id b \<or> (patient_id a = patient_id b \<and> date b \<le> date a))"

fun insort_by :: "('a \<Rightarrow> 'a \<Rightarrow> bool) \<Rightarrow> 'a \<Rightarrow> 'a list \<Rightarrow> 'a list" where
  "insort_by le x [] = [x]"
| "insort_by le x (y # ys) = (if le x y then x # y # ys else y # insort_by le x ys)"

definition sort_by :: "('a \<Rightarrow> 'a \<Rightarrow> bool) \<Rightarrow> 'a list \<Rightarrow> 'a list" where
  "sort_by le xs = foldr (insort_by le) xs []"

definition sort_values :: "observation list \<Rightarrow> observation list" where
  "sort_values obs = sort_by precedes obs"

text \<open>
  \<open>groupby('patient_id').first().reset_index()\<close>, then the rename and the selection of
  the three columns. The groups come in the order of their keys. \<open>first()\<close> works column
  by column: it takes the first entry of the group that is not null, and NaN when the
  group has none. The \<open>date\<close> column of the normalised frame is never null (an absent
  timestamp is the empty string).
\<close>

fun first_valid :: "'a option list \<Rightarrow> 'a option" where
  "first_valid [] = None"
| "first_valid (None # xs) = first_valid xs"
| "first_valid (Some v # xs) = Some v"

record latest = keyed +
  lab_value :: "rat option"
  lab_date :: "string option"

definition groupby_first :: "observation list \<Rightarrow> latest list" where
  "groupby_first obs =
     map (\<lambda>k. (let grp = filter (\<lambda>r. patient_id r = k) obs
               in \<lparr>patient_id = k,
                   lab_value = first_valid (map obs_value grp),
                   lab_date = first_valid (map (\<lambda>r. Some (date r)) grp)\<rparr>))
         (sort (remdups (map patient_id obs)))"

text \<open>
  \<open>pd.merge(latest_hba1c, latest_cholesterol, on='patient_id', how='outer')\<close>: one row per
  key of either side, keys in sorted order; the columns of a side that lacks the key are
  NaN. Both sides come from a \<open>groupby\<close>, so a key occurs at most once on each side.
\<close>

record latest_labs = keyed +
  hba1c_value :: "rat option"
  hba1c_date :: "string option"
  cholesterol_value :: "rat option"
  cholesterol_date :: "string option"

definition merge_outer :: "latest list \<Rightarrow> latest list \<Rightarrow> latest_labs list" where
  "merge_outer latest_hba1c latest_cholesterol =
     map (\<lambda>k. (let l = find (\<lambda>r. patient_id r = k) latest_hba1c;
                   r = find (\<lambda>r. patient_id r = k) latest_cholesterol
               in \<lparr>patient_id = k,
                   hba1c_value = Option.bind l lab_value,
                   hba1c_date = Option.bind l lab_date,
                   cholesterol_value = Option.bind r lab_value,
                   cholesterol_date = Option.bind r lab_date\<rparr>))
         (sort (remdups (map patient_id latest_hba1c @ map patient_id latest_cholesterol)))"

definition latest_labs_columns :: "string list" where
  "latest_labs_columns =
     [''patient_id'', ''hba1c_value'', ''hba1c_date'', ''cholesterol_value'', ''cholesterol_date'']"

definition get_latest_lab_values :: "observation frame \<Rightarrow> error + latest_labs frame" where
  "get_latest_lab_values observations_df =
     (case getitem observations_df ''code'' code of
        Inl e \<Rightarrow> Inl e
      | Inr codes \<Rightarrow>
          (let hba1c_obs = filter (\<lambda>r. lower (code r) = ''hemoglobin a1c'') (rows observations_df);
               cholesterol_obs = filter (\<lambda>r. lower (code r) = ''cholesterol'') (rows observations_df);
               latest_hba1c = groupby_first (sort_values hba1c_obs);
               latest_cholesterol = groupby_first (sort_values cholesterol_obs)
           in Inr \<lparr>columns = latest_labs_columns,
                    rows = merge_outer latest_hba1c latest_cholesterol\<rparr>))"

text \<open>
  The two rules. A comparison with NaN is false, so an absent value never sets a flag.
\<close>

record labs_d = latest_labs +
  diabetes_risk :: bool

record labs_dc = labs_d +
  cardiovascular_risk :: bool

definition ge_threshold :: "rat option \<Rightarrow> rat \<Rightarrow> bool" where
  "ge_threshold v t = (case v of None \<Rightarrow> False | Some x \<Rightarrow> t \<le> x)"

definition apply_diabetes_risk_rule :: "latest_labs frame \<Rightarrow> error + labs_d frame" where
  "apply_diabetes_risk_rule latest_labs_df =
     (case getitem latest_labs_df ''hba1c_value'' hba1c_value of
        Inl e \<Rightarrow> Inl e
      | Inr vs \<Rightarrow>
          Inr \<lparr>columns = columns latest_labs_df @ [''diabetes_risk''],
               rows = map (\<lambda>r. latest_labs.extend r
                             \<lparr>diabetes_risk = ge_threshold (hba1c_value r) DIABETES_HBA1C_THRESHOLD\<rparr>)
                          (rows latest_labs_df)\<rparr>)"

definition apply_cardiovascular_risk_rule :: "labs_d frame \<Rightarrow> error + labs_dc frame" where
  "apply_cardiovascular_risk_rule latest_labs_df =
     (case getitem latest_labs_df ''cholesterol_value'' cholesterol_value of
        Inl e \<Rightarrow> Inl e
      | Inr vs \<Rightarrow>
          Inr \<lparr>columns = columns latest_labs_df @ [''cardiovascular_risk''],
               rows = map (\<lambda>r. labs_d.extend r
                             \<lparr>cardiovascular_risk =
                                ge_threshold (cholesterol_value r) CARDIOVASCULAR_CHOLESTEROL_THRESHOLD\<rparr>)
                          (rows latest_labs_df)\<rparr>)"

text \<open>\<open>calculate_combined_risk\<close>, statement by statement on one row.\<close>

record risk = labs_dc +
  risk_score :: int
  risk_category :: "string option"
  risk_reasons :: string

definition risk_categories :: "int \<rightharpoonup> string" where
  "risk_categories = [0 \<mapsto> ''Low Risk'', 1 \<mapsto> ''Moderate Risk'', 2 \<mapsto> ''High Risk'']"

definition combined_risk_row :: "labs_dc \<Rightarrow> risk" where
  "combined_risk_row r =
     (let score0 = 0;
          score1 = (if diabetes_risk r = True then score0 + 1 else score0);
          score2 = (if cardiovascular_risk r = True then score1 + 1 else score1);
          category = risk_categories score2;
          reasons0 = '''';
          reasons1 = (if diabetes_risk r = True
                      then reasons0 @ ''Diabetes Risk (HbA1c >= 6.5); '' else reasons0);
          reasons2 = (if cardiovascular_risk r = True
                      then reasons1 @ ''Cardiovascular Risk (Cholesterol >= 240); '' else reasons1)
      in labs_dc.extend r
           \<lparr>risk_score = score2, risk_category = category,
            risk_reasons = rstrip ''; '' reasons2\<rparr>)"

definition calculate_combined_risk :: "labs_dc frame \<Rightarrow> error + risk frame" where
  "calculate_combined_risk risk_df =
     (case getitem risk_df ''diabetes_risk'' diabetes_risk of
        Inl e \<Rightarrow> Inl e
      | Inr ds \<Rightarrow>
          (case getitem risk_df ''cardiovascular_risk'' cardiovascular_risk of
             Inl e \<Rightarrow> Inl e
           | Inr cs \<Rightarrow>
               Inr \<lparr>columns = columns risk_df @ [''risk_score'', ''risk_category'', ''risk_reasons''],
                    rows = map combined_risk_row (rows risk_df)\<rparr>))"

text \<open>
  The reason string in the words of the specification, to be compared with what
  \<open>calculate_combined_risk\<close> builds: one fixed sentence per triggered rule, the
  diabetes rule before the cardiovascular rule, joined with \<open>"; "\<close>, nothing after the
  last sentence.
\<close>

definition specified_risk_reasons :: "bool \<Rightarrow> bool \<Rightarrow> string" where
  "specified_risk_reasons diabetes cardiovascular =
     join ''; ''
       ((if diabetes then [''Diabetes Risk (HbA1c >= 6.5)''] else []) @
        (if cardiovascular then [''Cardiovascular Risk (Cholesterol >= 240)''] else []))"

text \<open>
  \<open>pd.merge(enriched_patients_df, risk_df, on='patient_id', how='left')\<close>: every patient
  row, in its order, with the risk row of the same key, or NaN in every risk column when
  there is none (\<open>None\<close> here). \<open>risk_df\<close> has one row per key. A frame without the
  key column raises KeyError.
\<close>

type_synonym patient_with_risks = "enriched \<times> risk option"

definition merge_left ::
  "enriched frame \<Rightarrow> risk frame \<Rightarrow> error + patient_with_risks frame" where
  "merge_left left_df right_df =
     (if ''patient_id'' \<notin> set (columns left_df) \<or> ''patient_id'' \<notin> set (columns right_df)
      then Inl (KeyError ''patient_id'')
      else Inr \<lparr>columns =
                  columns left_df @ filter (\<lambda>c. c \<noteq> ''patient_id'') (columns right_df),
                rows = map (\<lambda>p. (p, find (\<lambda>r. patient_id r = patient_id p) (rows right_df)))
                           (rows left_df)\<rparr>)"

text \<open>
  The summary. \<open>Series.sum()\<close> skips NaN and counts the true flags;
  \<open>value_counts().to_dict()\<close> leaves NaN out and maps every category that occurs to the
  number of its rows.

  The percentages divide by \<open>len(patients_with_risks_df)\<close> with no guard. On a frame
  without rows the quotient is not a number (numpy gives nan on its integers, Python
  raises ZeroDivisionError on its own): \<open>None\<close> here. The result is the rational that
  the float approximates.
\<close>

definition column_sum :: "bool option list \<Rightarrow> nat" where
  "column_sum flags = length (filter (\<lambda>f. f = Some True) flags)"

definition value_counts :: "'a option list \<Rightarrow> ('a \<rightharpoonup> nat)" where
  "value_counts xs = (\<lambda>v. if Some v \<in> set xs then Some (count_list xs (Some v)) else None)"

definition percentage :: "nat \<Rightarrow> nat \<Rightarrow> rat option" where
  "percentage k n = (if n = 0 then None else Some (of_nat k / of_nat n * 100))"

record risk_summary =
  total_patients :: nat
  diabetes_risk_count :: nat
  cardiovascular_risk_count :: nat
  risk_category_counts :: "string \<rightharpoonup> nat"
  diabetes_risk_percentage :: "rat option"
  cardiovascular_risk_percentage :: "rat option"

definition summarize :: "patient_with_risks frame \<Rightarrow> error + risk_summary" where
  "summarize patients_with_risks_df =
     (case getitem patients_with_risks_df ''diabetes_risk''
             (\<lambda>(p, r). map_option diabetes_risk r) of
        Inl e \<Rightarrow> Inl e
      | Inr ds \<Rightarrow>
          (case getitem patients_with_risks_df ''cardiovascular_risk''
                  (\<lambda>(p, r). map_option cardiovascular_risk r) of
             Inl e \<Rightarrow> Inl e
           | Inr cs \<Rightarrow>
               (case getitem patients_with_risks_df ''risk_category''
                       (\<lambda>(p, r). Option.bind r risk_category) of
                  Inl e \<Rightarrow> Inl e
                | Inr cats \<Rightarrow>
                    Inr \<lparr>total_patients = length (rows patients_with_risks_df),
                         diabetes_risk_count = column_sum ds,
                         cardiovascular_risk_count = column_sum cs,
                         risk_category_counts = value_counts cats,
                         diabetes_risk_percentage =
                           percentage (column_sum ds) (length (rows patients_with_risks_df)),
                         cardiovascular_risk_percentage =
                           percentage (column_sum cs) (length (rows patients_with_risks_df))\<rparr>)))"

definition score_patient_risks ::
  "(string \<Rightarrow> ymd option) \<Rightarrow> ymd \<Rightarrow> document
     \<Rightarrow> error + (patient_with_risks frame \<times> risk_summary)" where
  "score_patient_risks strptime today data =
     (case load_and_normalize_data data of
        Inl e \<Rightarrow> Inl e
      | Inr (patients_df, observations_df, medications_df, allergies_df) \<Rightarrow>
     (case enrich_patient_data strptime today patients_df of
        Inl e \<Rightarrow> Inl e
      | Inr enriched_patients_df \<Rightarrow>
     (case get_latest_lab_values observations_df of
        Inl e \<Rightarrow> Inl e
      | Inr latest_labs_df \<Rightarrow>
     (case apply_diabetes_risk_rule latest_labs_df of
        Inl e \<Rightarrow> Inl e
      | Inr risk_df1 \<Rightarrow>
     (case apply_cardiovascular_risk_rule risk_df1 of
        Inl e \<Rightarrow> Inl e
      | Inr risk_df2 \<Rightarrow>
     (case calculate_combined_risk risk_df2 of
        Inl e \<Rightarrow> Inl e
      | Inr risk_df \<Rightarrow>
     (case merge_left enriched_patients_df risk_df of
        Inl e \<Rightarrow> Inl e
      | Inr patients_with_risks_df \<Rightarrow>
     (case summarize patients_with_risks_df of
        Inl e \<Rightarrow> Inl e
      | Inr summary \<Rightarrow> Inr (patients_with_risks_df, summary)))))))))"

section \<open>generate_report.py: the high-risk filter\<close>

text \<open>
  \<open>df[df['risk_score'] > 0]\<close> keeps the rows whose score is a number above zero (NaN is
  not), then \<open>sort_values('risk_score', ascending=False)\<close>. The sort on a single column
  is numpy's quicksort, which fixes no order among equal scores; the model keeps their
  input order (NaN would sort last), and the theorems below speak only of which rows the
  report holds.
\<close>

definition score_gt_0 :: "patient_with_risks \<Rightarrow> bool" where
  "score_gt_0 row = (case snd row of None \<Rightarrow> False | Some r \<Rightarrow> 0 < risk_score r)"

definition score_desc :: "patient_with_risks \<Rightarrow> patient_with_risks \<Rightarrow> bool" where
  "score_desc a b =
     (case snd a of
        None \<Rightarrow> snd b = None
      | Some x \<Rightarrow> (case snd b of None \<Rightarrow> True | Some y \<Rightarrow> risk_score y \<le> risk_score x))"

definition filter_high_risk_patients ::
  "patient_with_risks frame \<Rightarrow> error + patient_with_risks frame" where
  "filter_high_risk_patients patients_with_risks_df =
     (case getitem patients_with_risks_df ''risk_score'' (\<lambda>(p, r). map_option risk_score r) of
        Inl e \<Rightarrow> Inl e
      | Inr scores \<Rightarrow>
          Inr \<lparr>columns = columns patients_with_risks_df,
               rows = sort_by score_desc (filter score_gt_0 (rows patients_with_risks_df))\<rparr>)"

section \<open>Example inputs\<close>

text \<open>
  The library parser on the birthdates that the examples use, and the processing date
  of the examples.
\<close>

definition example_strptime :: "string \<Rightarrow> ymd option" where
  "example_strptime s =
     map_of [(''1900-01-01'', \<lparr>year = 1900, month = 1, day = 1\<rparr>),
             (''2008-11-04'', \<lparr>year = 2008, month = 11, day = 4\<rparr>),
             (''1980-05-17'', \<lparr>year = 1980, month = 5, day = 17\<rparr>)] s"

definition example_today :: ymd where
  "example_today = \<lparr>year = 2026, month = 11, day = 4\<rparr>"

definition example_patient :: "string \<Rightarrow> string \<Rightarrow> patient" where
  "example_patient pid birth =
     \<lparr>patient_id = pid, full_name = '' '', family_name = '''', given_name = '''',
      gender = '''', birthdate = birth, city = '''', state = '''', postal_code = ''''\<rparr>"

text \<open>
  The record that the specification of the lab resolver names: of the given observations,
  the one with the maximum timestamp in the lexicographic order of the date strings, and
  the first of the input among several with that timestamp. It is not part of the
  scripts; the theorems on \<open>get_latest_lab_values\<close> compare the code with it.
\<close>

definition max_timestamp_record :: "observation list \<Rightarrow> observation option" where
  "max_timestamp_record obs = find (\<lambda>r. \<forall>r'\<in>set obs. date r' \<le> date r) obs"

definition example_observation :: "string \<Rightarrow> string \<Rightarrow> rat option \<Rightarrow> string \<Rightarrow> observation" where
  "example_observation pid test v d =
     \<lparr>patient_id = pid, observation_id = '''', status = ''final'', code = test,
      obs_value = v, unit = '''', date = d\<rparr>"

text \<open>
  \<open>sum(d.values())\<close> of a dictionary of counts, as the specification of the summary
  writes it, and a document with two patients of which only the second has a lab
  observation.
\<close>

definition sum_values :: "('a \<rightharpoonup> nat) \<Rightarrow> nat" where
  "sum_values m = (\<Sum>k\<in>dom m. the (m k))"

definition example_document :: document where
  "example_document =
     \<lparr>patients = Some [Patient (Some ''p1'') None None (Some ''1980-05-17'') None,
                       Patient (Some ''p2'') None None (Some ''2008-11-04'') None],
      observations = Some [Observation (Some ''o1'') (Some ''final'')
                             (Present (CodeableConcept (Some ''Cholesterol'')))
                             (Present (Quantity (Some 250) (Some ''mg/dL'')))
                             (Some ''2023-03-01'')
                             (Present (Reference (Some (JString ''Patient/p2''))))],
      medications = None, allergies = None\<rparr>"

section \<open>Normalisation: references and defaults\<close>

lemma split_nonempty: "split sep s \<noteq> []"
  by (induction s) (auto split: list.splits)

lemma split_no_sep: "sep \<notin> set s \<Longrightarrow> split sep s = [s]"
  by (induction s) auto

lemma split_append: "\<exists>p ps. split sep (xs @ sep # ys) = (p # ps) @ split sep ys"
proof (induction xs)
  case Nil
  have "split sep ([] @ sep # ys) = ([] # []) @ split sep ys" by simp
  then show ?case by blast
next
  case (Cons c xs)
  then obtain p ps where pre: "split sep (xs @ sep # ys) = (p # ps) @ split sep ys" by blast
  show ?case
  proof (cases "c = sep")
    case True
    then have "split sep ((c # xs) @ sep # ys) = ([] # p # ps) @ split sep ys"
      using pre by simp
    then show ?thesis by blast
  next
    case False
    then have "split sep ((c # xs) @ sep # ys) = ((c # p) # ps) @ split sep ys"
      using pre by simp
    then show ?thesis by blast
  qed
qed

lemma last_split_append: "last (split sep (xs @ sep # ys)) = last (split sep ys)"
proof -
  obtain p ps where "split sep (xs @ sep # ys) = (p # ps) @ split sep ys"
    using split_append by blast
  then show ?thesis by (simp add: split_nonempty)
qed

lemma reference_id_string: "reference_id (JString ref) = Inr (last (split CHR ''/'' ref))"
  by (cases "ref = []")
     (simp_all add: reference_id_def index_last_def split_nonempty del: split.simps(2))

lemma reference_id_eq:
  "reference_id v =
     (if truthy v \<and> (\<forall>s. v \<noteq> JString s) then Inl AttributeError
      else Inr (case v of JString s \<Rightarrow> last (split CHR ''/'' s) | _ \<Rightarrow> ''''))"
  by (cases v) (simp_all add: reference_id_string, simp_all add: reference_id_def)

lemma last_split_Patient:
  "CHR ''/'' \<notin> set pid \<Longrightarrow> last (split CHR ''/'' (''Patient/'' @ pid)) = pid"
  using last_split_append [of "CHR ''/''" "''Patient''" pid] split_no_sep [of "CHR ''/''" pid]
  by simp

lemma normalize_observation_key:
  assumes "Observation_code obs \<noteq> NotObject" and "Observation_valueQuantity obs \<noteq> NotObject"
  shows "map_sum id patient_id (normalize_observation obs) =
     (case Observation_subject obs of
        NotObject \<Rightarrow> Inl AttributeError
      | Absent \<Rightarrow> reference_id (JString '''')
      | Present s \<Rightarrow> reference_id (get (Reference_reference s) (JString '''')))"
  using assms
  by (cases "Observation_code obs"; cases "Observation_valueQuantity obs";
      cases "Observation_subject obs")
     (simp_all add: normalize_observation_def get_object_def Let_def get_def
        split: sum.splits)

text \<open>
  C9, as the code has it. On an observation whose \<open>code\<close> and \<open>valueQuantity\<close> are
  absent or objects, the foreign key is decided by the subject alone. A string reference
  gives the text after its last \<open>/\<close>: the whole string when it holds no \<open>/\<close>, and the
  identifier for \<open>Patient/<id>\<close> with no \<open>/\<close> in the identifier. An absent subject, an
  absent reference and a reference that tests false (\<open>null\<close>, the empty string) give the
  empty key. None of these raises. A subject that is not an object and a reference that
  tests true and is not a string raise AttributeError.
\<close>

theorem patient_reference_last_segment:
  "(Observation_code obs = NotObject \<or> Observation_valueQuantity obs = NotObject \<or>
      Observation_subject obs = NotObject
      \<longrightarrow> normalize_observation obs = Inl AttributeError) \<and>
   (Observation_code obs \<noteq> NotObject \<and> Observation_valueQuantity obs \<noteq> NotObject
      \<longrightarrow> map_sum id patient_id (normalize_observation obs) =
           (case Observation_subject obs of
              NotObject \<Rightarrow> Inl AttributeError
            | Absent \<Rightarrow> Inr ''''
            | Present s \<Rightarrow>
                (case Reference_reference s of
                   None \<Rightarrow> Inr ''''
                 | Some (JString ref) \<Rightarrow> Inr (last (split CHR ''/'' ref))
                 | Some v \<Rightarrow> if truthy v then Inl AttributeError else Inr ''''))) \<and>
   (Observation_code obs \<noteq> NotObject \<and> Observation_valueQuantity obs \<noteq> NotObject \<and>
    Observation_subject obs = Present (Reference (Some (JString (''Patient/'' @ pid)))) \<and>
    CHR ''/'' \<notin> set pid
      \<longrightarrow> map_sum id patient_id (normalize_observation obs) = Inr pid)"
proof (intro conjI impI)
  assume "Observation_code obs = NotObject \<or> Observation_valueQuantity obs = NotObject \<or>
      Observation_subject obs = NotObject"
  then show "normalize_observation obs = Inl AttributeError"
    by (cases "Observation_code obs"; cases "Observation_valueQuantity obs")
       (auto simp: normalize_observation_def get_object_def)
next
  assume a: "Observation_code obs \<noteq> NotObject \<and> Observation_valueQuantity obs \<noteq> NotObject"
  show "map_sum id patient_id (normalize_observation obs) =
           (case Observation_subject obs of
              NotObject \<Rightarrow> Inl AttributeError
            | Absent \<Rightarrow> Inr ''''
            | Present s \<Rightarrow>
                (case Reference_reference s of
                   None \<Rightarrow> Inr ''''
                 | Some (JString ref) \<Rightarrow> Inr (last (split CHR ''/'' ref))
                 | Some v \<Rightarrow> if truthy v then Inl AttributeError else Inr ''''))"
    using a
    by (simp add: normalize_observation_key get_def reference_id_eq
        split: slot.splits option.splits json.splits)
next
  assume a: "Observation_code obs \<noteq> NotObject \<and> Observation_valueQuantity obs \<noteq> NotObject \<and>
    Observation_subject obs = Present (Reference (Some (JString (''Patient/'' @ pid)))) \<and>
    CHR ''/'' \<notin> set pid"
  then show "map_sum id patient_id (normalize_observation obs) = Inr pid"
    using last_split_Patient [of pid]
    by (simp add: normalize_observation_key get_def reference_id_string del: split.simps)
qed

theorem patient_reference_last_segment_witness:
  "map_sum id patient_id
     (normalize_observation
        (Observation None None Absent Absent None
           (Present (Reference (Some (JString ''Patient/p1''))))))
   = Inr ''p1''"
  using patient_reference_last_segment
    [of "Observation None None Absent Absent None
           (Present (Reference (Some (JString ''Patient/p1''))))" "''p1''"]
  by simp

text \<open>
  C9 as stated fails. The reference \<open>patient-1\<close> is not of the form \<open>Patient/<id>\<close>,
  and its foreign key is \<open>patient-1\<close>, not the empty string. A subject that is \<open>null\<close>
  and a reference that is the number 7 raise AttributeError.
\<close>

theorem malformed_reference_keeps_text:
  "(\<nexists>pid. ''patient-1'' = ''Patient/'' @ pid) \<and>
   map_sum id patient_id
     (normalize_observation
        (Observation None None Absent Absent None
           (Present (Reference (Some (JString ''patient-1''))))))
   = Inr ''patient-1'' \<and>
   normalize_observation (Observation None None Absent Absent None NotObject)
   = Inl AttributeError \<and>
   normalize_observation
     (Observation None None Absent Absent None (Present (Reference (Some (JNumber 7)))))
   = Inl AttributeError"
  by (simp add: normalize_observation_def get_object_def Let_def reference_id_def
      index_last_def get_def)

text \<open>
  Where the normalisers raise. An absent key is always replaced by its default. The
  exceptions are the IndexError of \<open>[0]\<close> on a list that is present and empty, and the
  AttributeError of a method call on a value of another type than the one expected.
\<close>

lemma for_each_raises_iff:
  "(\<exists>e. for_each body xs = Inl e) \<longleftrightarrow> (\<exists>x\<in>set xs. \<exists>e. body x = Inl e)"
proof (induction xs)
  case Nil
  then show ?case by simp
next
  case (Cons x xs)
  show ?case
  proof (cases "body x")
    case (Inl e)
    then show ?thesis by auto
  next
    case (Inr row)
    then show ?thesis using Cons by (cases "for_each body xs") auto
  qed
qed

lemma get_object_raises_iff: "(\<exists>e. get_object field d = Inl e) \<longleftrightarrow> field = NotObject"
  by (cases field) (simp_all add: get_object_def)

lemma normalize_observation_raises_iff:
  "(\<exists>e. normalize_observation obs = Inl e) \<longleftrightarrow>
     Observation_code obs = NotObject \<or> Observation_valueQuantity obs = NotObject \<or>
     Observation_subject obs = NotObject \<or>
     (\<exists>s v. Observation_subject obs = Present s \<and> Reference_reference s = Some v \<and>
            truthy v \<and> (\<forall>t. v \<noteq> JString t))"
  by (cases "Observation_code obs"; cases "Observation_valueQuantity obs";
      cases "Observation_subject obs")
     (auto simp: normalize_observation_def get_object_def Let_def get_def reference_id_eq
        split: option.splits)

lemma normalize_observation_raises_AttributeError:
  "normalize_observation obs = Inl e \<Longrightarrow> e = AttributeError"
  by (cases "Observation_code obs"; cases "Observation_valueQuantity obs";
      cases "Observation_subject obs")
     (auto simp: normalize_observation_def get_object_def Let_def get_def reference_id_eq
        split: option.splits if_splits)

lemma normalize_patient_raises_iff:
  "(\<exists>e. normalize_patient p = Inl e) \<longleftrightarrow>
     Patient_name p = Some [] \<or> Patient_address p = Some []"
  by (auto simp: normalize_patient_def get_def index0_def Let_def
      split: option.splits list.splits)

lemma normalize_patient_raises_IndexError:
  "normalize_patient p = Inl e \<Longrightarrow> e = IndexError"
  by (auto simp: normalize_patient_def get_def index0_def Let_def
      split: option.splits list.splits)

lemma normalize_patient_defaults:
  "normalize_patient (Patient None None None None None) =
     Inr \<lparr>patient_id = '''', full_name = '' '', family_name = '''', given_name = '''',
          gender = '''', birthdate = '''', city = '''', state = '''', postal_code = ''''\<rparr>"
  by (simp add: normalize_patient_def get_def index0_def)

lemma normalize_patients_raises_iff:
  "(\<exists>e. normalize_patients data = Inl e) \<longleftrightarrow>
     (\<exists>p\<in>set (get (patients data) []).
        Patient_name p = Some [] \<or> Patient_address p = Some [])"
proof -
  have "(\<exists>e. normalize_patients data = Inl e) \<longleftrightarrow>
      (\<exists>e. for_each normalize_patient (get (patients data) []) = Inl e)"
    by (cases "for_each normalize_patient (get (patients data) [])")
       (simp_all add: normalize_patients_def)
  then show ?thesis
    by (simp add: for_each_raises_iff normalize_patient_raises_iff)
qed

lemma reaction_text_raises_iff:
  "(\<exists>e. reaction_text (get (AllergyIntolerance_reaction a) [Reaction None]) = Inl e) \<longleftrightarrow>
     (\<exists>r rs. AllergyIntolerance_reaction a = Some (r # rs) \<and> Reaction_manifestation r = Some [])"
  by (auto simp: reaction_text_def get_def index0_def split: option.splits list.splits)

lemma normalize_allergy_raises_iff:
  "(\<exists>e. normalize_allergy a = Inl e) \<longleftrightarrow>
     AllergyIntolerance_clinicalStatus a = NotObject \<or> AllergyIntolerance_code a = NotObject \<or>
     (\<exists>r rs. AllergyIntolerance_reaction a = Some (r # rs) \<and> Reaction_manifestation r = Some []) \<or>
     AllergyIntolerance_patient a = NotObject \<or>
     (\<exists>s v. AllergyIntolerance_patient a = Present s \<and> Reference_reference s = Some v \<and>
            truthy v \<and> (\<forall>t. v \<noteq> JString t))"
proof (cases "reaction_text (get (AllergyIntolerance_reaction a) [Reaction None])")
  case (Inl e)
  then have "\<exists>r rs. AllergyIntolerance_reaction a = Some (r # rs) \<and>
      Reaction_manifestation r = Some []"
    using reaction_text_raises_iff [of a] by auto
  then show ?thesis
    using Inl
    by (cases "AllergyIntolerance_clinicalStatus a"; cases "AllergyIntolerance_code a")
       (simp_all add: normalize_allergy_def get_object_def Let_def)
next
  case (Inr shown)
  then have "\<not> (\<exists>r rs. AllergyIntolerance_reaction a = Some (r # rs) \<and>
      Reaction_manifestation r = Some [])"
    using reaction_text_raises_iff [of a] by auto
  then show ?thesis
    using Inr
    by (cases "AllergyIntolerance_clinicalStatus a"; cases "AllergyIntolerance_code a";
        cases "AllergyIntolerance_patient a")
       (auto simp: normalize_allergy_def get_object_def Let_def get_def reference_id_eq
          split: option.splits)
qed

lemma normalize_allergies_raises_iff:
  "(\<exists>e. normalize_allergies data = Inl e) \<longleftrightarrow>
     (\<exists>a\<in>set (get (allergies data) []). \<exists>e. normalize_allergy a = Inl e)"
proof -
  have "(\<exists>e. normalize_allergies data = Inl e) \<longleftrightarrow>
      (\<exists>e. for_each normalize_allergy (get (allergies data) []) = Inl e)"
    by (cases "for_each normalize_allergy (get (allergies data) [])")
       (simp_all add: normalize_allergies_def)
  then show ?thesis by (simp add: for_each_raises_iff)
qed

text \<open>
  C4 at the failing inputs: a patient whose \<open>name\<close> list is present and empty, and an
  allergy whose \<open>manifestation\<close> list is present and empty, make the normaliser raise
  IndexError, so the whole load is lost.
\<close>

theorem empty_list_aborts_normalisation:
  "normalize_patients
     \<lparr>patients = Some [Patient (Some ''p1'') (Some []) None None None],
      observations = None, medications = None, allergies = None\<rparr> = Inl IndexError \<and>
   normalize_allergies
     \<lparr>patients = None, observations = None, medications = None,
      allergies = Some [AllergyIntolerance (Some ''a1'') Absent Absent
                          (Some [Reaction (Some [])]) Absent]\<rparr> = Inl IndexError"
  by (simp add: normalize_patients_def normalize_patient_def normalize_allergies_def
      normalize_allergy_def reaction_text_def get_def index0_def get_object_def)

section \<open>The risk classifier\<close>

lemma rstrip_diabetes:
  "rstrip ''; '' ''Diabetes Risk (HbA1c >= 6.5); '' = ''Diabetes Risk (HbA1c >= 6.5)''"
  by (simp add: rstrip_def)

lemma rstrip_cardiovascular:
  "rstrip ''; '' ''Cardiovascular Risk (Cholesterol >= 240); ''
     = ''Cardiovascular Risk (Cholesterol >= 240)''"
  by (simp add: rstrip_def)

lemma rstrip_both:
  "rstrip ''; ''
     (''Diabetes Risk (HbA1c >= 6.5); '' @ ''Cardiovascular Risk (Cholesterol >= 240); '')
   = ''Diabetes Risk (HbA1c >= 6.5); Cardiovascular Risk (Cholesterol >= 240)''"
  by (simp add: rstrip_def)

lemma rstrip_empty: "rstrip ''; '' '''' = ''''"
  by (simp add: rstrip_def)

lemma combined_risk_row_keeps [simp]:
  "diabetes_risk (combined_risk_row r) = diabetes_risk r"
  "cardiovascular_risk (combined_risk_row r) = cardiovascular_risk r"
  "hba1c_value (combined_risk_row r) = hba1c_value r"
  "cholesterol_value (combined_risk_row r) = cholesterol_value r"
  "patient_id (combined_risk_row r) = patient_id r"
  by (simp_all add: combined_risk_row_def Let_def labs_dc.defs)

lemma combined_risk_row_reasons:
  "risk_reasons (combined_risk_row r) =
     join ''; ''
       ((if diabetes_risk r then [''Diabetes Risk (HbA1c >= 6.5)''] else []) @
        (if cardiovascular_risk r then [''Cardiovascular Risk (Cholesterol >= 240)''] else []))"
  using rstrip_diabetes rstrip_cardiovascular rstrip_both rstrip_empty
  by (simp add: combined_risk_row_def Let_def labs_dc.defs)

lemma combined_risk_row_score:
  "risk_score (combined_risk_row r) =
     (if diabetes_risk r then 1 else 0) + (if cardiovascular_risk r then 1 else 0)"
  by (simp add: combined_risk_row_def Let_def labs_dc.defs)

lemma combined_risk_row_category:
  "risk_category (combined_risk_row r) = risk_categories (risk_score (combined_risk_row r))"
  by (simp add: combined_risk_row_def Let_def labs_dc.defs)

lemma calculate_combined_risk_rows:
  "calculate_combined_risk df = Inr out \<Longrightarrow> rows out = map combined_risk_row (rows df)"
  by (auto simp: calculate_combined_risk_def getitem_def split: if_splits)

lemma apply_diabetes_risk_rule_rows:
  "apply_diabetes_risk_rule df = Inr out \<Longrightarrow>
   rows out = map (\<lambda>r. latest_labs.extend r
       \<lparr>diabetes_risk = ge_threshold (hba1c_value r) DIABETES_HBA1C_THRESHOLD\<rparr>) (rows df)"
  by (auto simp: apply_diabetes_risk_rule_def getitem_def split: if_splits)

lemma apply_cardiovascular_risk_rule_rows:
  "apply_cardiovascular_risk_rule df = Inr out \<Longrightarrow>
   rows out = map (\<lambda>r. labs_d.extend r
       \<lparr>cardiovascular_risk =
          ge_threshold (cholesterol_value r) CARDIOVASCULAR_CHOLESTEROL_THRESHOLD\<rparr>) (rows df)"
  by (auto simp: apply_cardiovascular_risk_rule_def getitem_def split: if_splits)

lemma ge_threshold_iff: "ge_threshold v t = (\<exists>x. v = Some x \<and> t \<le> x)"
  by (cases v) (simp_all add: ge_threshold_def)

lemma risk_categories_total:
  "risk_categories (risk_score (combined_risk_row r)) =
     Some (if risk_score (combined_risk_row r) = 0 then ''Low Risk''
           else if risk_score (combined_risk_row r) = 1 then ''Moderate Risk''
           else ''High Risk'')"
  by (simp add: combined_risk_row_score risk_categories_def)

text \<open>
  C5. In every row of the classifier's output the score is the number of true flags, the
  category is the mapping \<open>0 \<mapsto> Low Risk, 1 \<mapsto> Moderate Risk, 2 \<mapsto> High Risk\<close> at the
  score, each flag is true exactly when its lab value is present and at or above the
  threshold, and an absent lab value leaves its flag false.
\<close>

theorem risk_score_counts_flags:
  assumes "apply_diabetes_risk_rule latest_labs_df = Inr df1"
    and "apply_cardiovascular_risk_rule df1 = Inr df2"
    and "calculate_combined_risk df2 = Inr risk_df"
  shows "\<forall>r\<in>set (rows risk_df).
           risk_score r = (if diabetes_risk r then 1 else 0) + (if cardiovascular_risk r then 1 else 0) \<and>
           risk_category r = risk_categories (risk_score r) \<and>
           risk_category r =
             Some (if risk_score r = 0 then ''Low Risk''
                   else if risk_score r = 1 then ''Moderate Risk'' else ''High Risk'') \<and>
           diabetes_risk r = (\<exists>x. hba1c_value r = Some x \<and> DIABETES_HBA1C_THRESHOLD \<le> x) \<and>
           cardiovascular_risk r =
             (\<exists>x. cholesterol_value r = Some x \<and> CARDIOVASCULAR_CHOLESTEROL_THRESHOLD \<le> x) \<and>
           (hba1c_value r = None \<longrightarrow> \<not> diabetes_risk r) \<and>
           (cholesterol_value r = None \<longrightarrow> \<not> cardiovascular_risk r)"
proof
  fix r assume "r \<in> set (rows risk_df)"
  then obtain r2 where r2: "r2 \<in> set (rows df2)" and r: "r = combined_risk_row r2"
    using calculate_combined_risk_rows [OF assms(3)] by auto
  from r2 obtain r1 where r1: "r1 \<in> set (rows df1)"
    and r2': "r2 = labs_d.extend r1 \<lparr>cardiovascular_risk =
          ge_threshold (cholesterol_value r1) CARDIOVASCULAR_CHOLESTEROL_THRESHOLD\<rparr>"
    using apply_cardiovascular_risk_rule_rows [OF assms(2)] by auto
  from r1 obtain r0 where r0: "r0 \<in> set (rows latest_labs_df)"
    and r1': "r1 = latest_labs.extend r0
       \<lparr>diabetes_risk = ge_threshold (hba1c_value r0) DIABETES_HBA1C_THRESHOLD\<rparr>"
    using apply_diabetes_risk_rule_rows [OF assms(1)] by auto
  have d: "diabetes_risk r2 = ge_threshold (hba1c_value r2) DIABETES_HBA1C_THRESHOLD"
    by (simp add: r2' r1' labs_d.defs latest_labs.defs)
  have c: "cardiovascular_risk r2 =
      ge_threshold (cholesterol_value r2) CARDIOVASCULAR_CHOLESTEROL_THRESHOLD"
    by (simp add: r2' r1' labs_d.defs latest_labs.defs)
  show "risk_score r = (if diabetes_risk r then 1 else 0) + (if cardiovascular_risk r then 1 else 0) \<and>
           risk_category r = risk_categories (risk_score r) \<and>
           risk_category r =
             Some (if risk_score r = 0 then ''Low Risk''
                   else if risk_score r = 1 then ''Moderate Risk'' else ''High Risk'') \<and>
           diabetes_risk r = (\<exists>x. hba1c_value r = Some x \<and> DIABETES_HBA1C_THRESHOLD \<le> x) \<and>
           cardiovascular_risk r =
             (\<exists>x. cholesterol_value r = Some x \<and> CARDIOVASCULAR_CHOLESTEROL_THRESHOLD \<le> x) \<and>
           (hba1c_value r = None \<longrightarrow> \<not> diabetes_risk r) \<and>
           (cholesterol_value r = None \<longrightarrow> \<not> cardiovascular_risk r)"
    unfolding r
    using d c ge_threshold_iff [of "hba1c_value r2" DIABETES_HBA1C_THRESHOLD]
      ge_threshold_iff [of "cholesterol_value r2" CARDIOVASCULAR_CHOLESTEROL_THRESHOLD]
      combined_risk_row_score [of r2] combined_risk_row_category [of r2]
      risk_categories_total [of r2]
    by simp
qed

theorem risk_score_counts_flags_witness:
  "\<exists>df1 df2 risk_df.
     apply_diabetes_risk_rule
       \<lparr>columns = latest_labs_columns,
        rows = [\<lparr>patient_id = ''p1'', hba1c_value = Some 7, hba1c_date = Some ''2023-06-01'',
                 cholesterol_value = Some 200, cholesterol_date = Some ''2023-06-01''\<rparr>,
                \<lparr>patient_id = ''p2'', hba1c_value = None, hba1c_date = None,
                 cholesterol_value = Some 250, cholesterol_date = Some ''2023-06-01''\<rparr>]\<rparr> = Inr df1 \<and>
     apply_cardiovascular_risk_rule df1 = Inr df2 \<and>
     calculate_combined_risk df2 = Inr risk_df \<and>
     map (\<lambda>r. (diabetes_risk r, cardiovascular_risk r, risk_score r, risk_category r)) (rows risk_df)
       = [(True, False, 1, Some ''Moderate Risk''), (False, True, 1, Some ''Moderate Risk'')]"
proof -
  let ?df = "\<lparr>columns = latest_labs_columns,
        rows = [\<lparr>patient_id = ''p1'', hba1c_value = Some 7, hba1c_date = Some ''2023-06-01'',
                 cholesterol_value = Some 200, cholesterol_date = Some ''2023-06-01''\<rparr>,
                \<lparr>patient_id = ''p2'', hba1c_value = None, hba1c_date = None,
                 cholesterol_value = Some 250, cholesterol_date = Some ''2023-06-01''\<rparr>]\<rparr>"
  obtain df1 where h1: "apply_diabetes_risk_rule ?df = Inr df1"
    by (simp add: apply_diabetes_risk_rule_def getitem_def latest_labs_columns_def)
  have c1: "columns df1 = latest_labs_columns @ [''diabetes_risk'']"
    using h1 by (auto simp: apply_diabetes_risk_rule_def getitem_def latest_labs_columns_def)
  obtain df2 where h2: "apply_cardiovascular_risk_rule df1 = Inr df2"
    by (simp add: apply_cardiovascular_risk_rule_def getitem_def c1 latest_labs_columns_def)
  have c2: "columns df2 = latest_labs_columns @ [''diabetes_risk'', ''cardiovascular_risk'']"
    using h2 by (auto simp: apply_cardiovascular_risk_rule_def getitem_def c1 latest_labs_columns_def)
  obtain risk_df where h3: "calculate_combined_risk df2 = Inr risk_df"
    by (simp add: calculate_combined_risk_def getitem_def c2)
  have rs: "rows risk_df = map combined_risk_row (rows df2)"
    by (rule calculate_combined_risk_rows [OF h3])
  have r2: "rows df2 = map (\<lambda>r. labs_d.extend r
       \<lparr>cardiovascular_risk =
          ge_threshold (cholesterol_value r) CARDIOVASCULAR_CHOLESTEROL_THRESHOLD\<rparr>) (rows df1)"
    by (rule apply_cardiovascular_risk_rule_rows [OF h2])
  have r1: "rows df1 = map (\<lambda>r. latest_labs.extend r
       \<lparr>diabetes_risk = ge_threshold (hba1c_value r) DIABETES_HBA1C_THRESHOLD\<rparr>) (rows ?df)"
    by (rule apply_diabetes_risk_rule_rows [OF h1])
  have flags: "map (\<lambda>r. (diabetes_risk r, cardiovascular_risk r)) (rows risk_df)
      = [(True, False), (False, True)]"
    by (simp add: rs r2 r1 labs_d.defs latest_labs.defs ge_threshold_def
        DIABETES_HBA1C_THRESHOLD_def CARDIOVASCULAR_CHOLESTEROL_THRESHOLD_def)
  have len: "length (rows risk_df) = 2" by (simp add: rs r2 r1)
  then obtain a b where ab: "rows risk_df = [a, b]"
    by (cases "rows risk_df"; cases "tl (rows risk_df)") auto
  from risk_score_counts_flags [OF h1 h2 h3] flags ab
  have final: "map (\<lambda>r. (diabetes_risk r, cardiovascular_risk r, risk_score r, risk_category r)) (rows risk_df)
       = [(True, False, 1, Some ''Moderate Risk''), (False, True, 1, Some ''Moderate Risk'')]"
    by (simp add: risk_categories_def)
  show ?thesis
    by (rule exI [of _ df1], rule exI [of _ df2], rule exI [of _ risk_df])
      (intro conjI h1 h2 h3 final)
qed

section \<open>Age brackets\<close>

lemma cut_bins_labels:
  "cut bins labels a =
     (if 0 \<le> a \<and> a < 18 then Some ''0-18''
      else if 18 \<le> a \<and> a < 35 then Some ''19-35''
      else if 35 \<le> a \<and> a < 50 then Some ''36-50''
      else if 50 \<le> a \<and> a < 65 then Some ''51-65''
      else if 65 \<le> a \<and> a < 120 then Some ''65+''
      else None)"
  by (simp add: bins_def labels_def)

lemma enrich_patient_data_rows:
  "enrich_patient_data strptime today df = Inr out \<Longrightarrow>
   rows out = map (\<lambda>p. patient.extend p
       \<lparr>age = calculate_age strptime today (birthdate p),
        age_group = (case calculate_age strptime today (birthdate p) of
                       None \<Rightarrow> None | Some n \<Rightarrow> cut bins labels n)\<rparr>) (rows df)"
  by (auto simp: enrich_patient_data_def getitem_def Let_def split: if_splits)

text \<open>
  C6, as the code has it. The brackets are \<open>[0,18)\<close>, \<open>[18,35)\<close>, \<open>[35,50)\<close>, \<open>[50,65)\<close>
  and \<open>[65,120)\<close>, left-inclusive; an age below 0 or from 120 on has no bracket. A patient
  aged exactly 18, 35, 50 or 65 is in the upper bracket. The age of a row is
  \<open>calculate_age\<close> of its birthdate.
\<close>

theorem age_group_brackets:
  assumes "enrich_patient_data strptime today patients_df = Inr df"
  shows "\<forall>r\<in>set (rows df).
           age r = calculate_age strptime today (birthdate r) \<and>
           (\<forall>a. age r = Some a \<longrightarrow>
              age_group r =
                (if 0 \<le> a \<and> a < 18 then Some ''0-18''
                 else if 18 \<le> a \<and> a < 35 then Some ''19-35''
                 else if 35 \<le> a \<and> a < 50 then Some ''36-50''
                 else if 50 \<le> a \<and> a < 65 then Some ''51-65''
                 else if 65 \<le> a \<and> a < 120 then Some ''65+''
                 else None) \<and>
              (a = 18 \<longrightarrow> age_group r = Some ''19-35'') \<and>
              (a = 35 \<longrightarrow> age_group r = Some ''36-50'') \<and>
              (a = 50 \<longrightarrow> age_group r = Some ''51-65'') \<and>
              (a = 65 \<longrightarrow> age_group r = Some ''65+''))"
  using enrich_patient_data_rows [OF assms]
  by (auto simp: patient.defs cut_bins_labels)

theorem age_group_brackets_witness:
  "\<exists>df. enrich_patient_data example_strptime example_today
           (DataFrame patient_columns [example_patient ''p1'' ''2008-11-04'']) = Inr df \<and>
         map (\<lambda>r. (age r, age_group r)) (rows df) = [(Some 18, Some ''19-35'')]"
proof -
  let ?p = "DataFrame patient_columns [example_patient ''p1'' ''2008-11-04'']"
  have a: "calculate_age example_strptime example_today ''2008-11-04'' = Some 18"
    by (simp add: calculate_age_def example_strptime_def example_today_def)
  obtain df where h: "enrich_patient_data example_strptime example_today ?p = Inr df"
    by (simp add: enrich_patient_data_def getitem_def DataFrame_def patient_columns_def
        example_patient_def a Let_def)
  have rs: "\<exists>r. rows df = [r] \<and> birthdate r = ''2008-11-04''"
    using enrich_patient_data_rows [OF h]
    by (simp add: DataFrame_def example_patient_def patient.defs)
  then obtain r where r: "rows df = [r]" "birthdate r = ''2008-11-04''" by blast
  from age_group_brackets [OF h] r a
  have final: "map (\<lambda>r. (age r, age_group r)) (rows df) = [(Some 18, Some ''19-35'')]"
    by simp
  show ?thesis
    by (rule exI [of _ df]) (intro conjI h final)
qed

text \<open>
  C6 as stated fails: the last bracket is not \<open>[65,\<infinity>)\<close>. A patient born on 1900-01-01
  is 126 on 2026-11-04 and gets no bracket.
\<close>

theorem age_126_has_no_bracket:
  "map_sum id (\<lambda>df. map (\<lambda>r. (age r, age_group r)) (rows df))
     (enrich_patient_data example_strptime example_today
        (DataFrame patient_columns [example_patient ''p1'' ''1900-01-01'']))
   = Inr [(Some 126, None)]"
proof -
  have a: "calculate_age example_strptime example_today ''1900-01-01'' = Some 126"
    by (simp add: calculate_age_def example_strptime_def example_today_def)
  show ?thesis
    by (simp add: enrich_patient_data_def getitem_def DataFrame_def patient_columns_def
        example_patient_def a Let_def patient.defs cut_bins_labels)
qed

section \<open>The lab resolver\<close>

subsection \<open>The stable sort\<close>

lemma precedes_trans: "precedes a b \<Longrightarrow> precedes b c \<Longrightarrow> precedes a c"
  by (auto simp: precedes_def)

lemma precedes_total: "precedes a b \<or> precedes b a"
  by (auto simp: precedes_def)

lemma set_insort_by [simp]: "set (insort_by le x ys) = insert x (set ys)"
  by (induction ys) auto

lemma set_sort_by [simp]: "set (sort_by le xs) = set xs"
  by (induction xs) (simp_all add: sort_by_def)

lemma sort_by_Cons: "sort_by le (x # xs) = insort_by le x (sort_by le xs)"
  by (simp add: sort_by_def)

lemma sort_by_Nil [simp]: "sort_by le [] = []"
  by (simp add: sort_by_def)

lemma sorted_insort_precedes:
  "sorted_wrt precedes ys \<Longrightarrow> sorted_wrt precedes (insort_by precedes x ys)"
proof (induction ys)
  case Nil
  then show ?case by simp
next
  case (Cons y ys)
  show ?case
  proof (cases "precedes x y")
    case True
    then have "\<forall>z\<in>set ys. precedes x z"
      using Cons.prems precedes_trans by auto
    with True Cons.prems show ?thesis by simp
  next
    case False
    then have "precedes y x" using precedes_total by blast
    with False Cons show ?thesis by auto
  qed
qed

lemma sorted_sort_values: "sorted_wrt precedes (sort_values xs)"
  unfolding sort_values_def
  by (induction xs) (simp_all add: sort_by_Cons sorted_insort_precedes)

lemma find_insort_by_skip: "\<not> R x \<Longrightarrow> find R (insort_by le x ys) = find R ys"
  by (induction ys) auto

lemma find_in_set: "find R ys = Some z \<Longrightarrow> z \<in> set ys \<and> R z"
  by (induction ys) (auto split: if_splits)

lemma find_insort_precedes_hit:
  assumes "sorted_wrt precedes ys" and "R x"
  shows "find R (insort_by precedes x ys) =
           (case find R ys of
              None \<Rightarrow> Some x
            | Some y \<Rightarrow> if precedes x y then Some x else Some y)"
  using assms(1)
proof (induction ys)
  case Nil
  then show ?case using assms(2) by simp
next
  case (Cons y ys)
  show ?case
  proof (cases "precedes x y")
    case True
    have "precedes x z" if "find R (y # ys) = Some z" for z
    proof -
      have "z \<in> set (y # ys)" using find_in_set [OF that] by simp
      then show ?thesis using True Cons.prems precedes_trans by auto
    qed
    then show ?thesis using True assms(2) by (auto split: option.splits)
  next
    case False
    then show ?thesis using Cons by (auto split: option.splits)
  qed
qed

subsection \<open>The record with the maximum timestamp\<close>

lemma max_timestamp_record_Some:
  "max_timestamp_record G = Some y \<Longrightarrow> y \<in> set G \<and> (\<forall>r\<in>set G. date r \<le> date y)"
  unfolding max_timestamp_record_def using find_in_set by fastforce

lemma has_max_date: "G \<noteq> [] \<Longrightarrow> \<exists>m\<in>set G. \<forall>r\<in>set G. date r \<le> date m"
proof (induction G)
  case Nil
  then show ?case by simp
next
  case (Cons x G)
  show ?case
  proof (cases "G = []")
    case True
    then show ?thesis by simp
  next
    case False
    then obtain m where m: "m \<in> set G" "\<forall>r\<in>set G. date r \<le> date m"
      using Cons.IH by blast
    show ?thesis
    proof (cases "date m \<le> date x")
      case True
      then have "\<forall>r\<in>set (x # G). date r \<le> date x" using m by auto
      then show ?thesis by auto
    next
      case False
      then have "\<forall>r\<in>set (x # G). date r \<le> date m" using m by auto
      then show ?thesis using m(1) by auto
    qed
  qed
qed

lemma max_timestamp_record_None: "max_timestamp_record G = None \<longleftrightarrow> G = []"
proof
  assume n: "max_timestamp_record G = None"
  show "G = []"
  proof (rule ccontr)
    assume "G \<noteq> []"
    then obtain m where "m \<in> set G" "\<forall>r\<in>set G. date r \<le> date m"
      using has_max_date by blast
    then show False using n by (auto simp: max_timestamp_record_def find_None_iff)
  qed
next
  assume "G = []"
  then show "max_timestamp_record G = None" by (simp add: max_timestamp_record_def)
qed

lemma max_timestamp_record_Cons:
  "max_timestamp_record (x # G) =
     (case max_timestamp_record G of
        None \<Rightarrow> Some x
      | Some y \<Rightarrow> if date y \<le> date x then Some x else Some y)"
proof (cases "max_timestamp_record G")
  case None
  then have "G = []" by (simp add: max_timestamp_record_None)
  then show ?thesis by (simp add: max_timestamp_record_def)
next
  case (Some y)
  note y = max_timestamp_record_Some [OF Some]
  show ?thesis
  proof (cases "date y \<le> date x")
    case True
    then have "\<forall>r\<in>set (x # G). date r \<le> date x" using y by auto
    then show ?thesis using Some True by (simp add: max_timestamp_record_def)
  next
    case False
    then have nx: "\<not> (\<forall>r\<in>set (x # G). date r \<le> date x)" using y by auto
    have "find (\<lambda>r. \<forall>r'\<in>set (x # G). date r' \<le> date r) G
        = find (\<lambda>r. \<forall>r'\<in>set G. date r' \<le> date r) G"
      using y False by (intro find_cong) auto
    then show ?thesis
      using Some False nx by (auto simp: max_timestamp_record_def)
  qed
qed

lemma find_sort_values:
  assumes "\<And>a. R a \<Longrightarrow> patient_id a = k"
  shows "find R (sort_values xs) = max_timestamp_record (filter R xs)"
proof (induction xs)
  case Nil
  then show ?case by (simp add: sort_values_def max_timestamp_record_def)
next
  case (Cons x xs)
  have step: "sort_values (x # xs) = insort_by precedes x (sort_values xs)"
    by (simp add: sort_values_def sort_by_Cons)
  show ?case
  proof (cases "R x")
    case False
    then show ?thesis using Cons by (simp add: step find_insort_by_skip)
  next
    case True
    have same: "precedes x y \<longleftrightarrow> date y \<le> date x"
      if "max_timestamp_record (filter R xs) = Some y" for y
    proof -
      have "R y" using max_timestamp_record_Some [OF that] by simp
      then show ?thesis using assms True by (simp add: precedes_def)
    qed
    show ?thesis
      using True Cons same
      by (simp add: step find_insort_precedes_hit [OF sorted_sort_values]
          max_timestamp_record_Cons split: option.splits)
  qed
qed

lemma max_timestamp_record_filter:
  "max_timestamp_record G = Some ob \<Longrightarrow> Q ob \<Longrightarrow> max_timestamp_record (filter Q G) = Some ob"
proof (induction G)
  case Nil
  then show ?case by (simp add: max_timestamp_record_def)
next
  case (Cons x G)
  show ?case
  proof (cases "max_timestamp_record G")
    case None
    then have "G = []" by (simp add: max_timestamp_record_None)
    then show ?thesis using Cons.prems by (simp add: max_timestamp_record_def)
  next
    case (Some y)
    note y = max_timestamp_record_Some [OF Some]
    show ?thesis
    proof (cases "date y \<le> date x")
      case True
      then have obx: "ob = x" using Cons.prems(1) Some by (simp add: max_timestamp_record_Cons)
      have "date z \<le> date x" if "max_timestamp_record (filter Q G) = Some z" for z
        using max_timestamp_record_Some [OF that] y True by auto
      then show ?thesis
        using obx Cons.prems(2) by (auto simp: max_timestamp_record_Cons split: option.splits)
    next
      case False
      then have "ob = y" using Cons.prems(1) Some by (simp add: max_timestamp_record_Cons)
      then have "max_timestamp_record (filter Q G) = Some y"
        using Cons.IH Some Cons.prems(2) by simp
      then show ?thesis
        using False \<open>ob = y\<close> by (simp add: max_timestamp_record_Cons)
    qed
  qed
qed


subsection \<open>Grouping and merging\<close>

lemma first_valid_find: "first_valid (map f L) = Option.bind (find (\<lambda>a. f a \<noteq> None) L) f"
proof (induction L)
  case Nil
  then show ?case by simp
next
  case (Cons a L)
  then show ?case by (cases "f a") simp_all
qed

lemma find_filter: "find Q (filter P L) = find (\<lambda>a. P a \<and> Q a) L"
  by (induction L) simp_all

lemma find_keyed_map:
  assumes "\<And>j. patient_id (g j) = j"
  shows "find (\<lambda>r. patient_id r = k) (map g ks) = (if k \<in> set ks then Some (g k) else None)"
  using assms by (induction ks) auto

lemma groupby_first_find:
  "find (\<lambda>r. patient_id r = k) (groupby_first obs) =
     (if k \<in> patient_id ` set obs
      then Some \<lparr>patient_id = k,
                 lab_value = first_valid (map obs_value (filter (\<lambda>r. patient_id r = k) obs)),
                 lab_date = first_valid (map (\<lambda>r. Some (date r)) (filter (\<lambda>r. patient_id r = k) obs))\<rparr>
      else None)"
  unfolding groupby_first_def Let_def
  by (subst find_keyed_map) auto

lemma groupby_first_keys: "set (map patient_id (groupby_first obs)) = patient_id ` set obs"
  by (auto simp: groupby_first_def Let_def)

lemma first_valid_empty_group:
  "k \<notin> patient_id ` set obs \<Longrightarrow> filter (\<lambda>r. patient_id r = k) obs = []"
  by (auto simp: filter_empty_conv)

lemma groupby_first_value:
  "Option.bind (find (\<lambda>r. patient_id r = k) (groupby_first obs)) lab_value =
     first_valid (map obs_value (filter (\<lambda>r. patient_id r = k) obs))"
  by (simp add: groupby_first_find first_valid_empty_group)

lemma groupby_first_date:
  "Option.bind (find (\<lambda>r. patient_id r = k) (groupby_first obs)) lab_date =
     first_valid (map (\<lambda>r. Some (date r)) (filter (\<lambda>r. patient_id r = k) obs))"
  by (simp add: groupby_first_find first_valid_empty_group)

text \<open>One series: the value and the date of patient \<open>k\<close> among the matching observations.\<close>

lemma series_value:
  "Option.bind (find (\<lambda>r. patient_id r = k) (groupby_first (sort_values (filter P M)))) lab_value =
     Option.bind
       (max_timestamp_record (filter (\<lambda>a. patient_id a = k \<and> P a \<and> obs_value a \<noteq> None) M))
       obs_value"
proof -
  have "find (\<lambda>a. patient_id a = k \<and> obs_value a \<noteq> None) (sort_values (filter P M))
      = max_timestamp_record (filter (\<lambda>a. patient_id a = k \<and> obs_value a \<noteq> None) (filter P M))"
    by (rule find_sort_values [where k = k]) simp
  moreover have "filter (\<lambda>a. patient_id a = k \<and> obs_value a \<noteq> None) (filter P M)
      = filter (\<lambda>a. patient_id a = k \<and> P a \<and> obs_value a \<noteq> None) M"
    by (auto intro: filter_cong)
  ultimately show ?thesis
    by (simp add: groupby_first_value first_valid_find find_filter)
qed

lemma series_date:
  "Option.bind (find (\<lambda>r. patient_id r = k) (groupby_first (sort_values (filter P M)))) lab_date =
     map_option date (max_timestamp_record (filter (\<lambda>a. patient_id a = k \<and> P a) M))"
proof -
  have "find (\<lambda>a. patient_id a = k) (sort_values (filter P M))
      = max_timestamp_record (filter (\<lambda>a. patient_id a = k) (filter P M))"
    by (rule find_sort_values [where k = k]) simp
  moreover have "filter (\<lambda>a. patient_id a = k) (filter P M)
      = filter (\<lambda>a. patient_id a = k \<and> P a) M"
    by (auto intro: filter_cong)
  ultimately show ?thesis
    by (cases "max_timestamp_record (filter (\<lambda>a. patient_id a = k \<and> P a) M)")
       (simp_all add: groupby_first_date first_valid_find find_filter)
qed

lemma merge_outer_keys:
  "map patient_id (merge_outer A B) = sort (remdups (map patient_id A @ map patient_id B))"
  by (simp add: merge_outer_def Let_def comp_def)

lemma merge_outer_row:
  assumes "r \<in> set (merge_outer A B)"
  shows "hba1c_value r = Option.bind (find (\<lambda>a. patient_id a = patient_id r) A) lab_value"
    and "hba1c_date r = Option.bind (find (\<lambda>a. patient_id a = patient_id r) A) lab_date"
    and "cholesterol_value r = Option.bind (find (\<lambda>a. patient_id a = patient_id r) B) lab_value"
    and "cholesterol_date r = Option.bind (find (\<lambda>a. patient_id a = patient_id r) B) lab_date"
  using assms by (auto simp: merge_outer_def Let_def)

lemma get_latest_lab_values_rows:
  assumes "get_latest_lab_values df = Inr out"
  shows "rows out =
     merge_outer
       (groupby_first (sort_values (filter (\<lambda>r. lower (code r) = ''hemoglobin a1c'') (rows df))))
       (groupby_first (sort_values (filter (\<lambda>r. lower (code r) = ''cholesterol'') (rows df))))"
  using assms by (auto simp: get_latest_lab_values_def getitem_def Let_def split: if_splits)

text \<open>
  What the resolver returns on every observation frame that has the columns. There is
  one row per patient that has a matching observation of either kind (a patient without
  one is absent), the two series joined on the patient identifier. For each kind, over the
  patient's observations whose code matches case-insensitively, the date is that of the
  record with the maximum timestamp, and the value is that of the maximum-timestamp
  record among those that carry a value: \<open>first()\<close> takes the first non-null entry of
  each column on its own. The two come from one record exactly when the
  maximum-timestamp record carries a value.
\<close>

lemma latest_lab_values_resolved:
  assumes "get_latest_lab_values observations_df = Inr latest_labs_df"
  shows "distinct (map patient_id (rows latest_labs_df)) \<and>
    set (map patient_id (rows latest_labs_df)) =
      patient_id ` {a \<in> set (rows observations_df).
                      lower (code a) = ''hemoglobin a1c'' \<or> lower (code a) = ''cholesterol''} \<and>
    (\<forall>r\<in>set (rows latest_labs_df).
       hba1c_date r =
         map_option date (max_timestamp_record
           (filter (\<lambda>a. patient_id a = patient_id r \<and> lower (code a) = ''hemoglobin a1c'')
              (rows observations_df))) \<and>
       hba1c_value r =
         Option.bind (max_timestamp_record
           (filter (\<lambda>a. patient_id a = patient_id r \<and> lower (code a) = ''hemoglobin a1c'' \<and>
                         obs_value a \<noteq> None) (rows observations_df))) obs_value \<and>
       cholesterol_date r =
         map_option date (max_timestamp_record
           (filter (\<lambda>a. patient_id a = patient_id r \<and> lower (code a) = ''cholesterol'')
              (rows observations_df))) \<and>
       cholesterol_value r =
         Option.bind (max_timestamp_record
           (filter (\<lambda>a. patient_id a = patient_id r \<and> lower (code a) = ''cholesterol'' \<and>
                         obs_value a \<noteq> None) (rows observations_df))) obs_value \<and>
       (\<forall>ob. max_timestamp_record
              (filter (\<lambda>a. patient_id a = patient_id r \<and> lower (code a) = ''hemoglobin a1c'')
                 (rows observations_df)) = Some ob \<and> obs_value ob \<noteq> None
             \<longrightarrow> hba1c_value r = obs_value ob) \<and>
       (\<forall>ob. max_timestamp_record
              (filter (\<lambda>a. patient_id a = patient_id r \<and> lower (code a) = ''cholesterol'')
                 (rows observations_df)) = Some ob \<and> obs_value ob \<noteq> None
             \<longrightarrow> cholesterol_value r = obs_value ob))"
proof (intro conjI ballI)
  note rs = get_latest_lab_values_rows [OF assms]
  show "distinct (map patient_id (rows latest_labs_df))"
    by (simp add: rs merge_outer_keys)
  show "set (map patient_id (rows latest_labs_df)) =
      patient_id ` {a \<in> set (rows observations_df).
                      lower (code a) = ''hemoglobin a1c'' \<or> lower (code a) = ''cholesterol''}"
    unfolding rs merge_outer_keys
    using groupby_first_keys [of "sort_values (filter (\<lambda>r. lower (code r) = ''hemoglobin a1c'') (rows observations_df))"]
      groupby_first_keys [of "sort_values (filter (\<lambda>r. lower (code r) = ''cholesterol'') (rows observations_df))"]
    by (auto simp: sort_values_def)
next
  fix r assume "r \<in> set (rows latest_labs_df)"
  then have r: "r \<in> set (merge_outer
       (groupby_first (sort_values (filter (\<lambda>r. lower (code r) = ''hemoglobin a1c'') (rows observations_df))))
       (groupby_first (sort_values (filter (\<lambda>r. lower (code r) = ''cholesterol'') (rows observations_df)))))"
    using get_latest_lab_values_rows [OF assms] by simp
  show hd: "hba1c_date r =
         map_option date (max_timestamp_record
           (filter (\<lambda>a. patient_id a = patient_id r \<and> lower (code a) = ''hemoglobin a1c'')
              (rows observations_df)))"
    by (simp add: merge_outer_row(2) [OF r] series_date)
  show hv: "hba1c_value r =
         Option.bind (max_timestamp_record
           (filter (\<lambda>a. patient_id a = patient_id r \<and> lower (code a) = ''hemoglobin a1c'' \<and>
                         obs_value a \<noteq> None) (rows observations_df))) obs_value"
    by (simp add: merge_outer_row(1) [OF r] series_value)
  show cd: "cholesterol_date r =
         map_option date (max_timestamp_record
           (filter (\<lambda>a. patient_id a = patient_id r \<and> lower (code a) = ''cholesterol'')
              (rows observations_df)))"
    by (simp add: merge_outer_row(4) [OF r] series_date)
  show cv: "cholesterol_value r =
         Option.bind (max_timestamp_record
           (filter (\<lambda>a. patient_id a = patient_id r \<and> lower (code a) = ''cholesterol'' \<and>
                         obs_value a \<noteq> None) (rows observations_df))) obs_value"
    by (simp add: merge_outer_row(3) [OF r] series_value)
  have flt: "filter (\<lambda>a. obs_value a \<noteq> None) (filter (\<lambda>a. patient_id a = k \<and> P a) M)
      = filter (\<lambda>a. patient_id a = k \<and> P a \<and> obs_value a \<noteq> None) M" for k P and M :: "observation list"
    by (auto intro: filter_cong)
  show "\<forall>ob. max_timestamp_record
              (filter (\<lambda>a. patient_id a = patient_id r \<and> lower (code a) = ''hemoglobin a1c'')
                 (rows observations_df)) = Some ob \<and> obs_value ob \<noteq> None
             \<longrightarrow> hba1c_value r = obs_value ob"
  proof (intro allI impI, elim conjE)
    fix ob
    assume m: "max_timestamp_record
              (filter (\<lambda>a. patient_id a = patient_id r \<and> lower (code a) = ''hemoglobin a1c'')
                 (rows observations_df)) = Some ob" and v: "obs_value ob \<noteq> None"
    from max_timestamp_record_filter [OF m, of "\<lambda>a. obs_value a \<noteq> None"] v
    show "hba1c_value r = obs_value ob" by (simp add: hv flt)
  qed
  show "\<forall>ob. max_timestamp_record
              (filter (\<lambda>a. patient_id a = patient_id r \<and> lower (code a) = ''cholesterol'')
                 (rows observations_df)) = Some ob \<and> obs_value ob \<noteq> None
             \<longrightarrow> cholesterol_value r = obs_value ob"
  proof (intro allI impI, elim conjE)
    fix ob
    assume m: "max_timestamp_record
              (filter (\<lambda>a. patient_id a = patient_id r \<and> lower (code a) = ''cholesterol'')
                 (rows observations_df)) = Some ob" and v: "obs_value ob \<noteq> None"
    from max_timestamp_record_filter [OF m, of "\<lambda>a. obs_value a \<noteq> None"] v
    show "cholesterol_value r = obs_value ob" by (simp add: cv flt)
  qed
qed


lemma latest_lab_values_resolved_example:
  "\<exists>labs. get_latest_lab_values
            (DataFrame observation_columns
               [example_observation ''p1'' ''Hemoglobin A1c'' (Some (61 / 10)) ''2023-01-01'',
                example_observation ''p1'' ''hemoglobin a1c'' (Some 7) ''2023-06-01'',
                example_observation ''p2'' ''CHOLESTEROL'' (Some 250) ''2023-03-01'']) = Inr labs \<and>
     map (\<lambda>r. (patient_id r, hba1c_value r, hba1c_date r, cholesterol_value r)) (rows labs)
       = [(''p1'', Some 7, Some ''2023-06-01'', None), (''p2'', None, None, Some 250)]"
proof -
  have h: "get_latest_lab_values
            (DataFrame observation_columns
               [example_observation ''p1'' ''Hemoglobin A1c'' (Some (61 / 10)) ''2023-01-01'',
                example_observation ''p1'' ''hemoglobin a1c'' (Some 7) ''2023-06-01'',
                example_observation ''p2'' ''CHOLESTEROL'' (Some 250) ''2023-03-01''])
      = Inr \<lparr>columns = latest_labs_columns,
             rows = [\<lparr>patient_id = ''p1'', hba1c_value = Some 7, hba1c_date = Some ''2023-06-01'',
                      cholesterol_value = None, cholesterol_date = None\<rparr>,
                     \<lparr>patient_id = ''p2'', hba1c_value = None, hba1c_date = None,
                      cholesterol_value = Some 250, cholesterol_date = Some ''2023-03-01''\<rparr>]\<rparr>"
    by code_simp
  from latest_lab_values_resolved [OF h] h show ?thesis by simp
qed

text \<open>
  C7 at the failing input: two glycemic observations of patient \<open>p1\<close>, value 7 on
  2023-01-01 and no quantity on 2023-06-01. The record with the maximum timestamp is the
  one of 2023-06-01, which has no value; the resolver returns the value 7 of the older
  record under the date 2023-06-01 of the newer one, a pair that no record of the input
  holds. The rows are sorted newest first so that \<open>first()\<close> takes the newest record,
  but \<open>first()\<close> skips the nulls of each column separately.
\<close>

theorem latest_value_skips_record_without_quantity:
  "map_sum id (\<lambda>df. map (\<lambda>r. (patient_id r, hba1c_value r, hba1c_date r)) (rows df))
     (get_latest_lab_values
        (DataFrame observation_columns
           [example_observation ''p1'' ''Hemoglobin A1c'' (Some 7) ''2023-01-01'',
            example_observation ''p1'' ''Hemoglobin A1c'' None ''2023-06-01'']))
     = Inr [(''p1'', Some 7, Some ''2023-06-01'')] \<and>
   map_option obs_value
     (max_timestamp_record
        [example_observation ''p1'' ''Hemoglobin A1c'' (Some 7) ''2023-01-01'',
         example_observation ''p1'' ''Hemoglobin A1c'' None ''2023-06-01''])
     = Some None"
  by code_simp

theorem latest_value_skips_record_without_quantity_witness:
  "\<exists>df newest.
     get_latest_lab_values
       (DataFrame observation_columns
          [example_observation ''p1'' ''Hemoglobin A1c'' (Some 7) ''2023-01-01'',
           example_observation ''p1'' ''Hemoglobin A1c'' None ''2023-06-01'']) = Inr df \<and>
     map (\<lambda>r. (patient_id r, hba1c_value r, hba1c_date r)) (rows df)
       = [(''p1'', Some 7, Some ''2023-06-01'')] \<and>
     max_timestamp_record
       [example_observation ''p1'' ''Hemoglobin A1c'' (Some 7) ''2023-01-01'',
        example_observation ''p1'' ''Hemoglobin A1c'' None ''2023-06-01''] = Some newest \<and>
     obs_value newest = None"
proof -
  note th = latest_value_skips_record_without_quantity
  from th obtain df where df: "get_latest_lab_values
       (DataFrame observation_columns
          [example_observation ''p1'' ''Hemoglobin A1c'' (Some 7) ''2023-01-01'',
           example_observation ''p1'' ''Hemoglobin A1c'' None ''2023-06-01'']) = Inr df"
    and rs: "map (\<lambda>r. (patient_id r, hba1c_value r, hba1c_date r)) (rows df)
       = [(''p1'', Some 7, Some ''2023-06-01'')]"
    by (cases "get_latest_lab_values
       (DataFrame observation_columns
          [example_observation ''p1'' ''Hemoglobin A1c'' (Some 7) ''2023-01-01'',
           example_observation ''p1'' ''Hemoglobin A1c'' None ''2023-06-01''])") auto
  from th obtain newest where n: "max_timestamp_record
       [example_observation ''p1'' ''Hemoglobin A1c'' (Some 7) ''2023-01-01'',
        example_observation ''p1'' ''Hemoglobin A1c'' None ''2023-06-01''] = Some newest"
    and v: "obs_value newest = None"
    by (cases "max_timestamp_record
       [example_observation ''p1'' ''Hemoglobin A1c'' (Some 7) ''2023-01-01'',
        example_observation ''p1'' ''Hemoglobin A1c'' None ''2023-06-01'']") auto
  show ?thesis
    by (rule exI [of _ df], rule exI [of _ newest]) (intro conjI df rs n v)
qed

section \<open>The whole pipeline on empty collections\<close>

lemma normalize_observations_empty:
  "get (observations data) [] = [] \<Longrightarrow> normalize_observations data = Inr \<lparr>columns = [], rows = []\<rparr>"
  by (simp add: normalize_observations_def DataFrame_def)

lemma normalize_patients_empty:
  "get (patients data) [] = [] \<Longrightarrow> normalize_patients data = Inr \<lparr>columns = [], rows = []\<rparr>"
  by (simp add: normalize_patients_def DataFrame_def)

lemma get_latest_lab_values_no_columns:
  "get_latest_lab_values \<lparr>columns = [], rows = []\<rparr> = Inl (KeyError ''code'')"
  by (simp add: get_latest_lab_values_def getitem_def)

lemma enrich_patient_data_no_columns:
  "enrich_patient_data strptime today \<lparr>columns = [], rows = []\<rparr> = Inl (KeyError ''birthdate'')"
  by (simp add: enrich_patient_data_def getitem_def)

lemma load_and_normalize_data_Inr:
  "load_and_normalize_data data = Inr (pdf, odf, mdf, adf) \<Longrightarrow>
     normalize_patients data = Inr pdf \<and> normalize_observations data = Inr odf \<and>
     normalize_medications data = Inr mdf \<and> normalize_allergies data = Inr adf"
  by (auto simp: load_and_normalize_data_def split: sum.splits)

text \<open>
  C10. When the observations collection is absent or empty, \<open>score_patient_risks\<close>
  raises and returns no per-patient records. When the load and the enrichment of the
  patients go through (which needs a patient), the exception is the KeyError of the
  missing \<open>code\<close> column of the empty observation frame.
\<close>

theorem empty_observations_raise:
  assumes "observations data = None \<or> observations data = Some []"
  shows "(\<exists>e. score_patient_risks strptime today data = Inl e) \<and>
         (\<forall>pdf odf mdf adf edf.
            load_and_normalize_data data = Inr (pdf, odf, mdf, adf) \<and>
            enrich_patient_data strptime today pdf = Inr edf
            \<longrightarrow> score_patient_risks strptime today data = Inl (KeyError ''code''))"
proof -
  have e: "get (observations data) [] = []" using assms by (auto simp: get_def)
  have k: "score_patient_risks strptime today data = Inl (KeyError ''code'')"
    if "load_and_normalize_data data = Inr (pdf, odf, mdf, adf)"
      and "enrich_patient_data strptime today pdf = Inr edf" for pdf odf mdf adf edf
  proof -
    have "odf = \<lparr>columns = [], rows = []\<rparr>"
      using load_and_normalize_data_Inr [OF that(1)] normalize_observations_empty [OF e] by simp
    then show ?thesis
      using that by (simp add: score_patient_risks_def get_latest_lab_values_no_columns)
  qed
  have "\<exists>e. score_patient_risks strptime today data = Inl e"
  proof (cases "load_and_normalize_data data")
    case (Inl e)
    then show ?thesis by (simp add: score_patient_risks_def)
  next
    case (Inr t)
    obtain pdf odf mdf adf where t: "t = (pdf, odf, mdf, adf)" by (cases t) auto
    show ?thesis
    proof (cases "enrich_patient_data strptime today pdf")
      case (Inl e)
      then show ?thesis using Inr t by (simp add: score_patient_risks_def)
    next
      case (Inr edf)
      then show ?thesis using k \<open>load_and_normalize_data data = Inr t\<close> t by blast
    qed
  qed
  then show ?thesis using k by blast
qed

theorem empty_observations_raise_witness:
  "score_patient_risks example_strptime example_today
     \<lparr>patients = Some [Patient (Some ''p1'') None None (Some ''1980-05-17'') None],
      observations = None, medications = None, allergies = None\<rparr> = Inl (KeyError ''code'')"
proof -
  let ?d = "\<lparr>patients = Some [Patient (Some ''p1'') None None (Some ''1980-05-17'') None],
      observations = None, medications = None, allergies = None\<rparr>"
  have o: "observations ?d = None \<or> observations ?d = Some []" by simp
  obtain pdf odf mdf adf where l: "load_and_normalize_data ?d = Inr (pdf, odf, mdf, adf)"
    and p: "pdf = DataFrame patient_columns
       [\<lparr>patient_id = ''p1'', full_name = '' '', family_name = '''', given_name = '''',
         gender = '''', birthdate = ''1980-05-17'', city = '''', state = '''', postal_code = ''''\<rparr>]"
    by (simp add: load_and_normalize_data_def normalize_patients_def normalize_patient_def
        normalize_observations_def normalize_medications_def normalize_allergies_def
        get_def index0_def Let_def DataFrame_def)
  obtain edf where e: "enrich_patient_data example_strptime example_today pdf = Inr edf"
    by (simp add: p enrich_patient_data_def getitem_def DataFrame_def patient_columns_def
        calculate_age_def example_strptime_def Let_def)
  from empty_observations_raise [OF o, of example_strptime example_today] l e show ?thesis by blast
qed

text \<open>
  C1 at the failing input: with no patient, the collection absent or empty, every run
  raises and no summary is produced. Where the other collections load, as with the one
  observation below, the frame of the patients has no column and
  \<open>enrich_patient_data\<close> raises the KeyError of \<open>birthdate\<close>.
\<close>

theorem zero_patients_raise:
  "(\<exists>e. score_patient_risks strptime today (data\<lparr>patients := Some []\<rparr>) = Inl e) \<and>
   (\<exists>e. score_patient_risks strptime today (data\<lparr>patients := None\<rparr>) = Inl e) \<and>
   score_patient_risks strptime today
     \<lparr>patients = Some [],
      observations = Some [Observation (Some ''o1'') None Absent Absent None Absent],
      medications = None, allergies = None\<rparr>
     = Inl (KeyError ''birthdate'')"
proof -
  have gen: "\<exists>e. score_patient_risks strptime today d = Inl e" if "get (patients d) [] = []" for d
  proof (cases "load_and_normalize_data d")
    case (Inl e)
    then show ?thesis by (simp add: score_patient_risks_def)
  next
    case (Inr t)
    obtain pdf odf mdf adf where t: "t = (pdf, odf, mdf, adf)" by (cases t) auto
    have "pdf = \<lparr>columns = [], rows = []\<rparr>"
      using load_and_normalize_data_Inr [of d pdf odf mdf adf] Inr t
        normalize_patients_empty [OF that] by simp
    then show ?thesis
      using Inr t by (simp add: score_patient_risks_def enrich_patient_data_no_columns)
  qed
  have "score_patient_risks strptime today
     \<lparr>patients = Some [],
      observations = Some [Observation (Some ''o1'') None Absent Absent None Absent],
      medications = None, allergies = None\<rparr>
     = Inl (KeyError ''birthdate'')"
    by (simp add: score_patient_risks_def load_and_normalize_data_def normalize_patients_def
        normalize_observations_def normalize_observation_def get_object_def reference_id_def
        normalize_medications_def normalize_allergies_def
        get_def DataFrame_def enrich_patient_data_no_columns)
  moreover have "\<exists>e. score_patient_risks strptime today (data\<lparr>patients := Some []\<rparr>) = Inl e"
    by (rule gen) (simp add: get_def)
  moreover have "\<exists>e. score_patient_risks strptime today (data\<lparr>patients := None\<rparr>) = Inl e"
    by (rule gen) (simp add: get_def)
  ultimately show ?thesis by blast
qed

section \<open>The joined records, the summary and the high-risk report\<close>

lemma sum_case_InrE:
  assumes "(case x of Inl e \<Rightarrow> Inl e | Inr v \<Rightarrow> f v) = Inr y"
  obtains v where "x = Inr v" and "f v = Inr y"
  using assms by (cases x) auto

lemma prod_case_eqE:
  assumes "(case t of (a, b) \<Rightarrow> f a b) = y"
  obtains a b where "t = (a, b)" and "f a b = y"
  using assms by (cases t) auto

lemma score_patient_risks_Inr:
  assumes "score_patient_risks strptime today data = Inr (df, s)"
  obtains pdf odf mdf adf edf labs df1 df2 rdf where
    "load_and_normalize_data data = Inr (pdf, odf, mdf, adf)"
    "enrich_patient_data strptime today pdf = Inr edf"
    "get_latest_lab_values odf = Inr labs"
    "apply_diabetes_risk_rule labs = Inr df1"
    "apply_cardiovascular_risk_rule df1 = Inr df2"
    "calculate_combined_risk df2 = Inr rdf"
    "merge_left edf rdf = Inr df"
    "summarize df = Inr s"
  using assms unfolding score_patient_risks_def
  by (elim sum_case_InrE prod_case_eqE) auto

lemma score_patient_risks_merged:
  assumes "score_patient_risks strptime today data = Inr (df, s)"
  obtains edf df2 rdf where
    "calculate_combined_risk df2 = Inr rdf" "merge_left edf rdf = Inr df" "summarize df = Inr s"
  using assms by (elim score_patient_risks_Inr) blast

lemma get_latest_lab_values_keys:
  assumes "get_latest_lab_values odf = Inr labs"
  shows "set (map patient_id (rows labs)) =
      patient_id ` {a \<in> set (rows odf).
                      lower (code a) = ''hemoglobin a1c'' \<or> lower (code a) = ''cholesterol''}"
  unfolding get_latest_lab_values_rows [OF assms] merge_outer_keys
  using groupby_first_keys [of "sort_values (filter (\<lambda>r. lower (code r) = ''hemoglobin a1c'') (rows odf))"]
    groupby_first_keys [of "sort_values (filter (\<lambda>r. lower (code r) = ''cholesterol'') (rows odf))"]
  by (auto simp: sort_values_def)

lemma classifier_keys:
  assumes "apply_diabetes_risk_rule labs = Inr df1"
    and "apply_cardiovascular_risk_rule df1 = Inr df2"
    and "calculate_combined_risk df2 = Inr rdf"
  shows "map patient_id (rows rdf) = map patient_id (rows labs)"
  by (simp add: calculate_combined_risk_rows [OF assms(3)]
      apply_cardiovascular_risk_rule_rows [OF assms(2)]
      apply_diabetes_risk_rule_rows [OF assms(1)] comp_def labs_d.defs latest_labs.defs)

lemma classifier_category:
  assumes "calculate_combined_risk df2 = Inr rdf" and "r \<in> set (rows rdf)"
  shows "risk_category r \<noteq> None"
  using assms calculate_combined_risk_rows [OF assms(1)]
    combined_risk_row_category risk_categories_total by auto

lemma merge_left_rows:
  "merge_left edf rdf = Inr df \<Longrightarrow>
   rows df = map (\<lambda>p. (p, find (\<lambda>r. patient_id r = patient_id p) (rows rdf))) (rows edf)"
  by (auto simp: merge_left_def split: if_splits)

lemma merge_left_columns:
  "merge_left edf rdf = Inr df \<Longrightarrow>
   columns df = columns edf @ filter (\<lambda>c. c \<noteq> ''patient_id'') (columns rdf)"
  by (auto simp: merge_left_def split: if_splits)

lemma find_None_keys:
  "find (\<lambda>r. patient_id r = k) rs = None \<longleftrightarrow> k \<notin> set (map patient_id rs)"
  by (auto simp: find_None_iff)

lemma summarize_Inr:
  assumes "summarize df = Inr s"
  shows "total_patients s = length (rows df)"
    and "risk_category_counts s =
           value_counts (map (\<lambda>(p, r). Option.bind r risk_category) (rows df))"
  using assms unfolding summarize_def getitem_def
  by (auto elim!: sum_case_InrE split: if_splits)

lemma count_list_Some:
  "count_list xs (Some v) = count_list (map the (filter (\<lambda>x. x \<noteq> None) xs)) v"
  by (induction xs) auto

lemma sum_values_value_counts:
  "sum_values (value_counts xs) = length (filter (\<lambda>x. x \<noteq> None) xs)"
proof -
  let ?ys = "map the (filter (\<lambda>x. x \<noteq> None) xs)"
  have d: "dom (value_counts xs) = set ?ys"
    by (force simp: value_counts_def dom_def split: if_splits)
  have "sum_values (value_counts xs) = (\<Sum>k\<in>set ?ys. count_list ?ys k)"
    unfolding sum_values_def d
    by (rule sum.cong) (auto simp: value_counts_def count_list_Some)
  also have "\<dots> = length ?ys"
    by (rule sum_count_set) auto
  finally show ?thesis by simp
qed

lemma merged_category_None:
  assumes "calculate_combined_risk df2 = Inr rdf" and "merge_left edf rdf = Inr df"
    and "row \<in> set (rows df)"
  shows "Option.bind (snd row) risk_category \<noteq> None \<longleftrightarrow> snd row \<noteq> None"
proof (cases "snd row")
  case None
  then show ?thesis by simp
next
  case (Some r)
  then have "r \<in> set (rows rdf)"
    using assms(3) merge_left_rows [OF assms(2)] find_in_set by fastforce
  then show ?thesis using Some classifier_category [OF assms(1)] by simp
qed

lemma length_filter_eq_iff: "length (filter P xs) = length xs \<longleftrightarrow> (\<forall>x\<in>set xs. P x)"
proof -
  have "length (filter P xs) + length (filter (\<lambda>x. \<not> P x) xs) = length xs"
    by (rule sum_length_filter_compl)
  then have "length (filter P xs) = length xs \<longleftrightarrow> filter (\<lambda>x. \<not> P x) xs = []"
    by auto
  then show ?thesis by (simp add: filter_empty_conv)
qed

lemma category_counts_sum:
  assumes "score_patient_risks strptime today data = Inr (df, s)"
  shows "sum_values (risk_category_counts s) = length (filter (\<lambda>row. snd row \<noteq> None) (rows df))"
    and "total_patients s = length (rows df)"
proof -
  from assms obtain edf df2 rdf where
    c: "calculate_combined_risk df2 = Inr rdf" and m: "merge_left edf rdf = Inr df"
    and s: "summarize df = Inr s"
    by (rule score_patient_risks_merged)
  let ?f = "\<lambda>(p, r). Option.bind r risk_category"
  have "filter (\<lambda>row. ?f row \<noteq> None) (rows df) = filter (\<lambda>row. snd row \<noteq> None) (rows df)"
  proof (rule filter_cong [OF refl])
    fix row assume "row \<in> set (rows df)"
    from merged_category_None [OF c m this]
    show "(?f row \<noteq> None) = (snd row \<noteq> None)" by (simp add: case_prod_beta)
  qed
  then have "length (filter (\<lambda>x. x \<noteq> None) (map ?f (rows df)))
      = length (filter (\<lambda>row. snd row \<noteq> None) (rows df))"
    by (simp add: filter_map comp_def)
  then show "sum_values (risk_category_counts s) = length (filter (\<lambda>row. snd row \<noteq> None) (rows df))"
    by (simp add: summarize_Inr(2) [OF s] sum_values_value_counts)
  show "total_patients s = length (rows df)" by (rule summarize_Inr(1) [OF s])
qed

lemma risk_row_iff_matching_observation:
  assumes "score_patient_risks strptime today data = Inr (df, s)"
  obtains odf where "normalize_observations data = Inr odf"
    and "\<And>row. row \<in> set (rows df) \<Longrightarrow>
           snd row \<noteq> None \<longleftrightarrow>
           patient_id (fst row) \<in> patient_id ` {a \<in> set (rows odf).
              lower (code a) = ''hemoglobin a1c'' \<or> lower (code a) = ''cholesterol''}"
proof -
  from assms obtain pdf odf mdf adf edf labs df1 df2 rdf where
    l: "load_and_normalize_data data = Inr (pdf, odf, mdf, adf)"
    and g: "get_latest_lab_values odf = Inr labs"
    and a1: "apply_diabetes_risk_rule labs = Inr df1"
    and a2: "apply_cardiovascular_risk_rule df1 = Inr df2"
    and c: "calculate_combined_risk df2 = Inr rdf" and m: "merge_left edf rdf = Inr df"
    by (rule score_patient_risks_Inr)
  have keys: "set (map patient_id (rows rdf)) = patient_id ` {a \<in> set (rows odf).
              lower (code a) = ''hemoglobin a1c'' \<or> lower (code a) = ''cholesterol''}"
    using classifier_keys [OF a1 a2 c] get_latest_lab_values_keys [OF g] by simp
  have "snd row \<noteq> None \<longleftrightarrow>
           patient_id (fst row) \<in> patient_id ` {a \<in> set (rows odf).
              lower (code a) = ''hemoglobin a1c'' \<or> lower (code a) = ''cholesterol''}"
    if "row \<in> set (rows df)" for row
  proof -
    from that obtain p where "row = (p, find (\<lambda>r. patient_id r = patient_id p) (rows rdf))"
      using merge_left_rows [OF m] by auto
    then show ?thesis using find_None_keys [of "patient_id p" "rows rdf"] keys by simp
  qed
  then show ?thesis
    using that load_and_normalize_data_Inr [OF l] by blast
qed

text \<open>
  C2, as the code has it. For every run that returns, the counts of the category mapping
  add up to the number of patient rows that have a risk row, which is at most the total
  patient count; a patient row has a risk row exactly when an observation under its
  identifier matches one of the two tracked tests. \<open>value_counts\<close> leaves out the
  patients whose category is null.
\<close>

theorem category_counts_cover_resolved_patients:
  assumes "score_patient_risks strptime today data = Inr (df, s)"
  shows "sum_values (risk_category_counts s) = length (filter (\<lambda>row. snd row \<noteq> None) (rows df)) \<and>
         total_patients s = length (rows df) \<and>
         sum_values (risk_category_counts s) \<le> total_patients s \<and>
         (sum_values (risk_category_counts s) = total_patients s \<longleftrightarrow>
            (\<forall>row\<in>set (rows df). snd row \<noteq> None)) \<and>
         (\<exists>odf. normalize_observations data = Inr odf \<and>
            (\<forall>row\<in>set (rows df).
               snd row \<noteq> None \<longleftrightarrow>
               patient_id (fst row) \<in> patient_id ` {a \<in> set (rows odf).
                 lower (code a) = ''hemoglobin a1c'' \<or> lower (code a) = ''cholesterol''}))"
proof -
  note cs = category_counts_sum [OF assms]
  have "sum_values (risk_category_counts s) \<le> total_patients s"
    unfolding cs by simp
  moreover have "sum_values (risk_category_counts s) = total_patients s \<longleftrightarrow>
            (\<forall>row\<in>set (rows df). snd row \<noteq> None)"
    unfolding cs by (rule length_filter_eq_iff)
  moreover have "\<exists>odf. normalize_observations data = Inr odf \<and>
            (\<forall>row\<in>set (rows df).
               snd row \<noteq> None \<longleftrightarrow>
               patient_id (fst row) \<in> patient_id ` {a \<in> set (rows odf).
                 lower (code a) = ''hemoglobin a1c'' \<or> lower (code a) = ''cholesterol''})"
  proof -
    from risk_row_iff_matching_observation [OF assms] obtain odf where
      "normalize_observations data = Inr odf"
      "\<And>row. row \<in> set (rows df) \<Longrightarrow>
           snd row \<noteq> None \<longleftrightarrow>
           patient_id (fst row) \<in> patient_id ` {a \<in> set (rows odf).
              lower (code a) = ''hemoglobin a1c'' \<or> lower (code a) = ''cholesterol''}"
      by blast
    then show ?thesis by (intro exI [of _ odf] conjI ballI)
  qed
  ultimately show ?thesis using cs by blast
qed


lemma example_document_scores:
  "map_sum id
     (\<lambda>(df, s).
        (map (\<lambda>row. (patient_id (fst row), map_option diabetes_risk (snd row),
                      map_option cardiovascular_risk (snd row), map_option risk_score (snd row),
                      Option.bind (snd row) risk_category)) (rows df),
         total_patients s))
     (score_patient_risks example_strptime example_today example_document)
   = Inr ([(''p1'', None, None, None, None),
           (''p2'', Some False, Some True, Some 1, Some ''Moderate Risk'')], 2)"
  by code_simp

lemma example_document_returns:
  obtains df s where
    "score_patient_risks example_strptime example_today example_document = Inr (df, s)"
    "map (\<lambda>row. (patient_id (fst row), map_option diabetes_risk (snd row),
                      map_option cardiovascular_risk (snd row), map_option risk_score (snd row),
                      Option.bind (snd row) risk_category)) (rows df)
       = [(''p1'', None, None, None, None),
           (''p2'', Some False, Some True, Some 1, Some ''Moderate Risk'')]"
    "total_patients s = 2"
proof (cases "score_patient_risks example_strptime example_today example_document")
  case (Inl e)
  then show ?thesis using example_document_scores by simp
next
  case (Inr t)
  obtain df s where "t = (df, s)" by (cases t) auto
  then show ?thesis using Inr example_document_scores that by simp
qed

lemma example_document_observations:
  "normalize_observations example_document =
     Inr (DataFrame observation_columns
            [\<lparr>patient_id = ''p2'', observation_id = ''o1'', status = ''final'',
              code = ''Cholesterol'', obs_value = Some 250, unit = ''mg/dL'',
              date = ''2023-03-01''\<rparr>])"
  by (simp add: normalize_observations_def normalize_observation_def example_document_def
      get_object_def get_def Let_def reference_id_def index_last_def)

theorem category_counts_cover_resolved_patients_witness:
  "\<exists>df s. score_patient_risks example_strptime example_today example_document = Inr (df, s) \<and>
          sum_values (risk_category_counts s) = 1 \<and> total_patients s = 2"
proof -
  obtain df s where h: "score_patient_risks example_strptime example_today example_document = Inr (df, s)"
    and r: "map (\<lambda>row. (patient_id (fst row), map_option diabetes_risk (snd row),
                      map_option cardiovascular_risk (snd row), map_option risk_score (snd row),
                      Option.bind (snd row) risk_category)) (rows df)
       = [(''p1'', None, None, None, None),
           (''p2'', Some False, Some True, Some 1, Some ''Moderate Risk'')]"
    by (rule example_document_returns)
  from r obtain a b where ab: "rows df = [a, b]" "snd a = None" "snd b \<noteq> None"
    by (cases "rows df"; cases "tl (rows df)") auto
  from category_counts_cover_resolved_patients [OF h] ab
  have "sum_values (risk_category_counts s) = 1 \<and> total_patients s = 2" by simp
  with h show ?thesis by (intro exI [of _ df] exI [of _ s] conjI) simp_all
qed

text \<open>
  C2 as stated fails: of two patients, one without a lab observation, the category
  counts add up to 1 and the total is 2.
\<close>

theorem category_counts_below_total:
  "\<exists>df s. score_patient_risks example_strptime example_today example_document = Inr (df, s) \<and>
          sum_values (risk_category_counts s) \<noteq> total_patients s"
proof -
  obtain df s where h: "score_patient_risks example_strptime example_today example_document = Inr (df, s)"
    and r: "map (\<lambda>row. (patient_id (fst row), map_option diabetes_risk (snd row),
                      map_option cardiovascular_risk (snd row), map_option risk_score (snd row),
                      Option.bind (snd row) risk_category)) (rows df)
       = [(''p1'', None, None, None, None),
           (''p2'', Some False, Some True, Some 1, Some ''Moderate Risk'')]"
    and t: "total_patients s = 2"
    by (rule example_document_returns)
  from r obtain a b where ab: "rows df = [a, b]" "snd a = None" "snd b \<noteq> None"
    by (cases "rows df"; cases "tl (rows df)") auto
  have "sum_values (risk_category_counts s) = 1"
    using category_counts_sum(1) [OF h] ab by simp
  with t h show ?thesis by (intro exI [of _ df] exI [of _ s] conjI) simp_all
qed

lemma filter_high_risk_patients_Inr:
  assumes "merge_left edf rdf = Inr df" and "''risk_score'' \<in> set (columns rdf)"
  shows "filter_high_risk_patients df =
           Inr \<lparr>columns = columns df, rows = sort_by score_desc (filter score_gt_0 (rows df))\<rparr>"
  using assms
  by (simp add: filter_high_risk_patients_def getitem_def merge_left_columns [OF assms(1)])

lemma calculate_combined_risk_columns:
  "calculate_combined_risk df2 = Inr rdf \<Longrightarrow> ''risk_score'' \<in> set (columns rdf)"
  by (auto simp: calculate_combined_risk_def getitem_def split: if_splits)

text \<open>
  C3, as the code has it. For every run that returns, a patient under whose identifier
  there is no observation at all has no risk row in the joined record: flags, score and
  category are null, not false, 0 and Low Risk. The patient is not in the high-risk
  report, which holds exactly the joined rows with a score above zero.
\<close>

theorem patient_without_labs_has_null_risk:
  assumes "score_patient_risks strptime today data = Inr (df, s)"
  shows "\<exists>odf high_risk_df.
           normalize_observations data = Inr odf \<and>
           filter_high_risk_patients df = Inr high_risk_df \<and>
           (\<forall>row\<in>set (rows df).
              patient_id (fst row) \<notin> patient_id ` set (rows odf) \<longrightarrow>
              snd row = None \<and> row \<notin> set (rows high_risk_df)) \<and>
           (\<forall>row\<in>set (rows df).
              row \<in> set (rows high_risk_df) \<longleftrightarrow> (\<exists>r. snd row = Some r \<and> 0 < risk_score r))"
proof -
  from assms obtain edf df2 rdf where
    c: "calculate_combined_risk df2 = Inr rdf" and m: "merge_left edf rdf = Inr df"
    by (rule score_patient_risks_merged)
  from risk_row_iff_matching_observation [OF assms] obtain odf where
    o: "normalize_observations data = Inr odf"
    and iff: "\<And>row. row \<in> set (rows df) \<Longrightarrow>
           snd row \<noteq> None \<longleftrightarrow>
           patient_id (fst row) \<in> patient_id ` {a \<in> set (rows odf).
              lower (code a) = ''hemoglobin a1c'' \<or> lower (code a) = ''cholesterol''}"
    by blast
  let ?h = "\<lparr>columns = columns df, rows = sort_by score_desc (filter score_gt_0 (rows df))\<rparr>"
  have f: "filter_high_risk_patients df = Inr ?h"
    by (rule filter_high_risk_patients_Inr [OF m calculate_combined_risk_columns [OF c]])
  have a: "snd row = None \<and> row \<notin> set (rows ?h)"
    if "row \<in> set (rows df)" "patient_id (fst row) \<notin> patient_id ` set (rows odf)" for row
  proof -
    have "snd row = None" using iff [OF that(1)] that(2) by auto
    then show ?thesis by (simp add: score_gt_0_def)
  qed
  have b: "row \<in> set (rows ?h) \<longleftrightarrow> (\<exists>r. snd row = Some r \<and> 0 < risk_score r)"
    if "row \<in> set (rows df)" for row
    using that by (cases "snd row") (simp_all add: score_gt_0_def)
  show ?thesis
    using o f a b by (intro exI [of _ odf] exI [of _ ?h] conjI ballI impI) blast+
qed

theorem patient_without_labs_has_null_risk_witness:
  "\<exists>df s high_risk_df.
     score_patient_risks example_strptime example_today example_document = Inr (df, s) \<and>
     filter_high_risk_patients df = Inr high_risk_df \<and>
     map (\<lambda>row. (patient_id (fst row), map_option risk_score (snd row))) (rows df)
       = [(''p1'', None), (''p2'', Some 1)] \<and>
     map (\<lambda>row. patient_id (fst row)) (rows high_risk_df) = [''p2'']"
proof -
  obtain df s where h: "score_patient_risks example_strptime example_today example_document = Inr (df, s)"
    and r: "map (\<lambda>row. (patient_id (fst row), map_option diabetes_risk (snd row),
                      map_option cardiovascular_risk (snd row), map_option risk_score (snd row),
                      Option.bind (snd row) risk_category)) (rows df)
       = [(''p1'', None, None, None, None),
           (''p2'', Some False, Some True, Some 1, Some ''Moderate Risk'')]"
    by (rule example_document_returns)
  from r obtain a b where ab: "rows df = [a, b]" "patient_id (fst a) = ''p1''" "snd a = None"
      "patient_id (fst b) = ''p2''" "map_option risk_score (snd b) = Some 1"
    by (cases "rows df"; cases "tl (rows df)") auto
  from patient_without_labs_has_null_risk [OF h] obtain odf hr where
    o: "normalize_observations example_document = Inr odf"
    and f: "filter_high_risk_patients df = Inr hr"
    and iff: "\<forall>row\<in>set (rows df).
              row \<in> set (rows hr) \<longleftrightarrow> (\<exists>r. snd row = Some r \<and> 0 < risk_score r)"
    by blast
  have ina: "a \<notin> set (rows hr)" and inb: "b \<in> set (rows hr)"
    using iff ab by auto
  have sub: "rows hr = sort_by score_desc (filter score_gt_0 (rows df))"
    using f by (auto simp: filter_high_risk_patients_def getitem_def split: if_splits)
  have "filter score_gt_0 (rows df) = [b]"
    using ina inb ab unfolding sub by (auto split: if_splits)
  then have "rows hr = [b]" by (simp add: sub sort_by_Cons)
  with h f ab show ?thesis
    by (intro exI [of _ df] exI [of _ s] exI [of _ hr] conjI) simp_all
qed

text \<open>
  C3 as stated fails: patient \<open>p1\<close> has no observation, and its joined record holds
  null flags, a null score and a null category.
\<close>

theorem patient_without_labs_not_low_risk:
  "\<exists>df s odf.
     score_patient_risks example_strptime example_today example_document = Inr (df, s) \<and>
     normalize_observations example_document = Inr odf \<and>
     ''p1'' \<notin> patient_id ` set (rows odf) \<and>
     map (\<lambda>row. (patient_id (fst row), map_option diabetes_risk (snd row),
                   map_option cardiovascular_risk (snd row), map_option risk_score (snd row),
                   Option.bind (snd row) risk_category)) (rows df)
       = [(''p1'', None, None, None, None),
          (''p2'', Some False, Some True, Some 1, Some ''Moderate Risk'')]"
proof -
  obtain df s where h: "score_patient_risks example_strptime example_today example_document = Inr (df, s)"
    and r: "map (\<lambda>row. (patient_id (fst row), map_option diabetes_risk (snd row),
                      map_option cardiovascular_risk (snd row), map_option risk_score (snd row),
                      Option.bind (snd row) risk_category)) (rows df)
       = [(''p1'', None, None, None, None),
           (''p2'', Some False, Some True, Some 1, Some ''Moderate Risk'')]"
    by (rule example_document_returns)
  show ?thesis
    by (rule exI [of _ df], rule exI [of _ s],
        rule exI [of _ "DataFrame observation_columns
            [\<lparr>patient_id = ''p2'', observation_id = ''o1'', status = ''final'',
              code = ''Cholesterol'', obs_value = Some 250, unit = ''mg/dL'',
              date = ''2023-03-01''\<rparr>]"])
       (simp add: h r example_document_observations DataFrame_def)
qed

lemma specified_risk_reasons_values:
  "map (\<lambda>(d, c). specified_risk_reasons d c)
       [(False, False), (True, False), (False, True), (True, True)]
   = ['''', ''Diabetes Risk (HbA1c >= 6.5)'', ''Cardiovascular Risk (Cholesterol >= 240)'',
      ''Diabetes Risk (HbA1c >= 6.5); Cardiovascular Risk (Cholesterol >= 240)'']"
  by (simp add: specified_risk_reasons_def)

lemma find_map_option: "find P (map f xs) = map_option f (find (\<lambda>x. P (f x)) xs)"
  by (induction xs) simp_all

lemma classifier_reasons:
  assumes "apply_diabetes_risk_rule labs = Inr df1"
    and "apply_cardiovascular_risk_rule df1 = Inr df2"
    and "calculate_combined_risk df2 = Inr rdf"
  shows "map_option risk_reasons (find (\<lambda>r. patient_id r = k) (rows rdf)) =
         map_option
           (\<lambda>l. specified_risk_reasons
                   (\<exists>x. hba1c_value l = Some x \<and> DIABETES_HBA1C_THRESHOLD \<le> x)
                   (\<exists>x. cholesterol_value l = Some x \<and> CARDIOVASCULAR_CHOLESTEROL_THRESHOLD \<le> x))
           (find (\<lambda>l. patient_id l = k) (rows labs))"
  by (simp add: calculate_combined_risk_rows [OF assms(3)]
      apply_cardiovascular_risk_rule_rows [OF assms(2)]
      apply_diabetes_risk_rule_rows [OF assms(1)] find_map_option comp_def option.map_comp
      combined_risk_row_reasons specified_risk_reasons_def ge_threshold_iff
      labs_d.defs latest_labs.defs)

text \<open>
  C8, as the code has it. \<open>calculate_combined_risk\<close> keeps the rows, the identifiers and
  the two flags of the frame it is given, and writes into \<open>risk_reasons\<close> of each row
  the sentences of the rules that the flags of that row say are triggered, diabetes
  before cardiovascular, joined with \<open>"; "\<close> and with nothing after the last one: the
  empty string, one sentence, or both. In the joined records of a run that returns, the
  reasons of a patient are those of the patient's row of resolved lab values, with each
  rule triggered exactly when its value is present and at or above the threshold; a
  patient without such a row has null reasons, not the empty string.
\<close>

theorem risk_reasons_of_triggered_rules:
  "(calculate_combined_risk risk_df = Inr out \<longrightarrow>
      map (\<lambda>r. (patient_id r, diabetes_risk r, cardiovascular_risk r, risk_reasons r)) (rows out) =
      map (\<lambda>r. (patient_id r, diabetes_risk r, cardiovascular_risk r,
                 specified_risk_reasons (diabetes_risk r) (cardiovascular_risk r)))
          (rows risk_df)) \<and>
   (score_patient_risks strptime today data = Inr (df, s) \<longrightarrow>
      (\<exists>odf labs.
         normalize_observations data = Inr odf \<and> get_latest_lab_values odf = Inr labs \<and>
         (\<forall>row\<in>set (rows df).
            map_option risk_reasons (snd row) =
              map_option
                (\<lambda>l. specified_risk_reasons
                        (\<exists>x. hba1c_value l = Some x \<and> DIABETES_HBA1C_THRESHOLD \<le> x)
                        (\<exists>x. cholesterol_value l = Some x \<and>
                             CARDIOVASCULAR_CHOLESTEROL_THRESHOLD \<le> x))
                (find (\<lambda>l. patient_id l = patient_id (fst row)) (rows labs))))) \<and>
   map (\<lambda>(d, c). specified_risk_reasons d c)
       [(False, False), (True, False), (False, True), (True, True)]
   = ['''', ''Diabetes Risk (HbA1c >= 6.5)'', ''Cardiovascular Risk (Cholesterol >= 240)'',
      ''Diabetes Risk (HbA1c >= 6.5); Cardiovascular Risk (Cholesterol >= 240)'']"
proof (intro conjI impI)
  assume h: "calculate_combined_risk risk_df = Inr out"
  show "map (\<lambda>r. (patient_id r, diabetes_risk r, cardiovascular_risk r, risk_reasons r)) (rows out) =
      map (\<lambda>r. (patient_id r, diabetes_risk r, cardiovascular_risk r,
                 specified_risk_reasons (diabetes_risk r) (cardiovascular_risk r)))
          (rows risk_df)"
    by (simp add: calculate_combined_risk_rows [OF h] comp_def combined_risk_row_reasons
        specified_risk_reasons_def)
next
  assume h: "score_patient_risks strptime today data = Inr (df, s)"
  then obtain pdf odf mdf adf edf labs df1 df2 rdf where
    l: "load_and_normalize_data data = Inr (pdf, odf, mdf, adf)"
    and g: "get_latest_lab_values odf = Inr labs"
    and a1: "apply_diabetes_risk_rule labs = Inr df1"
    and a2: "apply_cardiovascular_risk_rule df1 = Inr df2"
    and c: "calculate_combined_risk df2 = Inr rdf" and m: "merge_left edf rdf = Inr df"
    by (rule score_patient_risks_Inr)
  have o: "normalize_observations data = Inr odf"
    using load_and_normalize_data_Inr [OF l] by simp
  have r: "map_option risk_reasons (snd row) =
              map_option
                (\<lambda>l. specified_risk_reasons
                        (\<exists>x. hba1c_value l = Some x \<and> DIABETES_HBA1C_THRESHOLD \<le> x)
                        (\<exists>x. cholesterol_value l = Some x \<and>
                             CARDIOVASCULAR_CHOLESTEROL_THRESHOLD \<le> x))
                (find (\<lambda>l. patient_id l = patient_id (fst row)) (rows labs))"
    if "row \<in> set (rows df)" for row
  proof -
    from that obtain p where "row = (p, find (\<lambda>r. patient_id r = patient_id p) (rows rdf))"
      using merge_left_rows [OF m] by auto
    then show ?thesis using classifier_reasons [OF a1 a2 c, of "patient_id p"] by simp
  qed
  show "\<exists>odf labs.
         normalize_observations data = Inr odf \<and> get_latest_lab_values odf = Inr labs \<and>
         (\<forall>row\<in>set (rows df).
            map_option risk_reasons (snd row) =
              map_option
                (\<lambda>l. specified_risk_reasons
                        (\<exists>x. hba1c_value l = Some x \<and> DIABETES_HBA1C_THRESHOLD \<le> x)
                        (\<exists>x. cholesterol_value l = Some x \<and>
                             CARDIOVASCULAR_CHOLESTEROL_THRESHOLD \<le> x))
                (find (\<lambda>l. patient_id l = patient_id (fst row)) (rows labs)))"
    by (rule exI [of _ odf], rule exI [of _ labs]) (intro conjI o g ballI r)
next
  show "map (\<lambda>(d, c). specified_risk_reasons d c)
       [(False, False), (True, False), (False, True), (True, True)]
   = ['''', ''Diabetes Risk (HbA1c >= 6.5)'', ''Cardiovascular Risk (Cholesterol >= 240)'',
      ''Diabetes Risk (HbA1c >= 6.5); Cardiovascular Risk (Cholesterol >= 240)'']"
    by (rule specified_risk_reasons_values)
qed


lemma example_document_labs:
  "get_latest_lab_values
     (DataFrame observation_columns
            [\<lparr>patient_id = ''p2'', observation_id = ''o1'', status = ''final'',
              code = ''Cholesterol'', obs_value = Some 250, unit = ''mg/dL'',
              date = ''2023-03-01''\<rparr>])
   = Inr \<lparr>columns = latest_labs_columns,
          rows = [\<lparr>patient_id = ''p2'', hba1c_value = None, hba1c_date = None,
                   cholesterol_value = Some 250, cholesterol_date = Some ''2023-03-01''\<rparr>]\<rparr>"
  by code_simp

theorem risk_reasons_of_triggered_rules_witness:
  "(\<exists>out. calculate_combined_risk
            \<lparr>columns = latest_labs_columns @ [''diabetes_risk'', ''cardiovascular_risk''],
             rows = [\<lparr>patient_id = ''p0'', hba1c_value = Some 6, hba1c_date = Some ''2023-06-01'',
                      cholesterol_value = Some 200, cholesterol_date = Some ''2023-06-01'',
                      diabetes_risk = False, cardiovascular_risk = False\<rparr>,
                     \<lparr>patient_id = ''p1'', hba1c_value = Some 7, hba1c_date = Some ''2023-06-01'',
                      cholesterol_value = Some 200, cholesterol_date = Some ''2023-06-01'',
                      diabetes_risk = True, cardiovascular_risk = False\<rparr>,
                     \<lparr>patient_id = ''p2'', hba1c_value = Some 6, hba1c_date = Some ''2023-06-01'',
                      cholesterol_value = Some 250, cholesterol_date = Some ''2023-06-01'',
                      diabetes_risk = False, cardiovascular_risk = True\<rparr>,
                     \<lparr>patient_id = ''p3'', hba1c_value = Some 7, hba1c_date = Some ''2023-06-01'',
                      cholesterol_value = Some 250, cholesterol_date = Some ''2023-06-01'',
                      diabetes_risk = True, cardiovascular_risk = True\<rparr>]\<rparr> = Inr out \<and>
      map (\<lambda>r. (patient_id r, risk_reasons r)) (rows out) =
        [(''p0'', ''''),
         (''p1'', ''Diabetes Risk (HbA1c >= 6.5)''),
         (''p2'', ''Cardiovascular Risk (Cholesterol >= 240)''),
         (''p3'', ''Diabetes Risk (HbA1c >= 6.5); Cardiovascular Risk (Cholesterol >= 240)'')]) \<and>
   (\<exists>df s. score_patient_risks example_strptime example_today example_document = Inr (df, s) \<and>
      map (\<lambda>row. (patient_id (fst row), map_option risk_reasons (snd row))) (rows df) =
        [(''p1'', None), (''p2'', Some ''Cardiovascular Risk (Cholesterol >= 240)'')])"
proof (rule conjI)
  let ?df = "\<lparr>columns = latest_labs_columns @ [''diabetes_risk'', ''cardiovascular_risk''],
             rows = [\<lparr>patient_id = ''p0'', hba1c_value = Some 6, hba1c_date = Some ''2023-06-01'',
                      cholesterol_value = Some 200, cholesterol_date = Some ''2023-06-01'',
                      diabetes_risk = False, cardiovascular_risk = False\<rparr>,
                     \<lparr>patient_id = ''p1'', hba1c_value = Some 7, hba1c_date = Some ''2023-06-01'',
                      cholesterol_value = Some 200, cholesterol_date = Some ''2023-06-01'',
                      diabetes_risk = True, cardiovascular_risk = False\<rparr>,
                     \<lparr>patient_id = ''p2'', hba1c_value = Some 6, hba1c_date = Some ''2023-06-01'',
                      cholesterol_value = Some 250, cholesterol_date = Some ''2023-06-01'',
                      diabetes_risk = False, cardiovascular_risk = True\<rparr>,
                     \<lparr>patient_id = ''p3'', hba1c_value = Some 7, hba1c_date = Some ''2023-06-01'',
                      cholesterol_value = Some 250, cholesterol_date = Some ''2023-06-01'',
                      diabetes_risk = True, cardiovascular_risk = True\<rparr>]\<rparr>"
  obtain out where h: "calculate_combined_risk ?df = Inr out"
    by (simp add: calculate_combined_risk_def getitem_def)
  have "map (\<lambda>r. (patient_id r, diabetes_risk r, cardiovascular_risk r, risk_reasons r)) (rows out) =
      map (\<lambda>r. (patient_id r, diabetes_risk r, cardiovascular_risk r,
                 specified_risk_reasons (diabetes_risk r) (cardiovascular_risk r)))
          (rows ?df)"
    using risk_reasons_of_triggered_rules [of ?df out] h by blast
  then have "map (\<lambda>r. (patient_id r, diabetes_risk r, cardiovascular_risk r, risk_reasons r)) (rows out) =
      [(''p0'', False, False, ''''),
       (''p1'', True, False, ''Diabetes Risk (HbA1c >= 6.5)''),
       (''p2'', False, True, ''Cardiovascular Risk (Cholesterol >= 240)''),
       (''p3'', True, True,
        ''Diabetes Risk (HbA1c >= 6.5); Cardiovascular Risk (Cholesterol >= 240)'')]"
    by (simp add: specified_risk_reasons_def)
  then have "map (\<lambda>r. (patient_id r, risk_reasons r)) (rows out) =
        [(''p0'', ''''),
         (''p1'', ''Diabetes Risk (HbA1c >= 6.5)''),
         (''p2'', ''Cardiovascular Risk (Cholesterol >= 240)''),
         (''p3'', ''Diabetes Risk (HbA1c >= 6.5); Cardiovascular Risk (Cholesterol >= 240)'')]"
    by (auto simp: map_eq_Cons_conv)
  with h show "\<exists>out. calculate_combined_risk ?df = Inr out \<and>
      map (\<lambda>r. (patient_id r, risk_reasons r)) (rows out) =
        [(''p0'', ''''),
         (''p1'', ''Diabetes Risk (HbA1c >= 6.5)''),
         (''p2'', ''Cardiovascular Risk (Cholesterol >= 240)''),
         (''p3'', ''Diabetes Risk (HbA1c >= 6.5); Cardiovascular Risk (Cholesterol >= 240)'')]"
    by (intro exI [of _ out] conjI)
next
  obtain df s where h: "score_patient_risks example_strptime example_today example_document = Inr (df, s)"
    and r: "map (\<lambda>row. (patient_id (fst row), map_option diabetes_risk (snd row),
                      map_option cardiovascular_risk (snd row), map_option risk_score (snd row),
                      Option.bind (snd row) risk_category)) (rows df)
       = [(''p1'', None, None, None, None),
           (''p2'', Some False, Some True, Some 1, Some ''Moderate Risk'')]"
    by (rule example_document_returns)
  from r obtain a b where ab: "rows df = [a, b]" "patient_id (fst a) = ''p1''"
      "patient_id (fst b) = ''p2''"
    by (cases "rows df"; cases "tl (rows df)") auto
  from risk_reasons_of_triggered_rules [of _ _ example_strptime example_today example_document df s] h
  obtain odf labs where o: "normalize_observations example_document = Inr odf"
    and g: "get_latest_lab_values odf = Inr labs"
    and rs: "\<forall>row\<in>set (rows df).
            map_option risk_reasons (snd row) =
              map_option
                (\<lambda>l. specified_risk_reasons
                        (\<exists>x. hba1c_value l = Some x \<and> DIABETES_HBA1C_THRESHOLD \<le> x)
                        (\<exists>x. cholesterol_value l = Some x \<and>
                             CARDIOVASCULAR_CHOLESTEROL_THRESHOLD \<le> x))
                (find (\<lambda>l. patient_id l = patient_id (fst row)) (rows labs))"
    by blast
  have labs: "rows labs = [\<lparr>patient_id = ''p2'', hba1c_value = None, hba1c_date = None,
                   cholesterol_value = Some 250, cholesterol_date = Some ''2023-03-01''\<rparr>]"
  proof -
    from o have "odf = DataFrame observation_columns
            [\<lparr>patient_id = ''p2'', observation_id = ''o1'', status = ''final'',
              code = ''Cholesterol'', obs_value = Some 250, unit = ''mg/dL'',
              date = ''2023-03-01''\<rparr>]"
      by (simp add: example_document_observations)
    with g show ?thesis by (auto simp: example_document_labs)
  qed
  have "map (\<lambda>row. (patient_id (fst row), map_option risk_reasons (snd row))) (rows df) =
        [(''p1'', None), (''p2'', Some ''Cardiovascular Risk (Cholesterol >= 240)'')]"
    using rs ab
    by (simp add: labs specified_risk_reasons_def CARDIOVASCULAR_CHOLESTEROL_THRESHOLD_def)
  with h show "\<exists>df s. score_patient_risks example_strptime example_today example_document = Inr (df, s) \<and>
      map (\<lambda>row. (patient_id (fst row), map_option risk_reasons (snd row))) (rows df) =
        [(''p1'', None), (''p2'', Some ''Cardiovascular Risk (Cholesterol >= 240)'')]"
    by (intro exI [of _ df] exI [of _ s] conjI)
qed

text \<open>
  C8 as stated fails for a patient row of the joined records: patient \<open>p1\<close> has no
  observation, no rule is triggered, and the reasons are null, not the empty
  concatenation.
\<close>

theorem patient_without_labs_has_null_reasons:
  "map_sum id
     (\<lambda>(df, s). map (\<lambda>row. (patient_id (fst row), map_option risk_reasons (snd row))) (rows df))
     (score_patient_risks example_strptime example_today example_document)
   = Inr [(''p1'', None), (''p2'', Some ''Cardiovascular Risk (Cholesterol >= 240)'')]"
  by code_simp

text \<open>
  The summary is computed only with at least one patient row, so the unguarded division
  of the percentages never meets a zero divisor: a run without patients has raised
  before.
\<close>

lemma normalize_patients_columns:
  "normalize_patients data = Inr pdf \<Longrightarrow> columns pdf \<noteq> [] \<Longrightarrow> rows pdf \<noteq> []"
  by (auto simp: normalize_patients_def DataFrame_def split: sum.splits if_splits)

lemma enrich_patient_data_columns:
  "enrich_patient_data strptime today pdf = Inr edf \<Longrightarrow> columns pdf \<noteq> []"
  by (auto simp: enrich_patient_data_def getitem_def split: if_splits)

lemma summarize_percentages:
  assumes "summarize df = Inr s"
  shows "diabetes_risk_percentage s = percentage (diabetes_risk_count s) (total_patients s)"
    and "cardiovascular_risk_percentage s =
           percentage (cardiovascular_risk_count s) (total_patients s)"
  using assms unfolding summarize_def getitem_def
  by (auto elim!: sum_case_InrE split: if_splits)

lemma summary_reached_with_patients:
  assumes "score_patient_risks strptime today data = Inr (df, s)"
  shows "rows df \<noteq> []"
    and "diabetes_risk_percentage s =
           Some (of_nat (diabetes_risk_count s) / of_nat (total_patients s) * 100)"
    and "cardiovascular_risk_percentage s =
           Some (of_nat (cardiovascular_risk_count s) / of_nat (total_patients s) * 100)"
proof -
  from assms obtain pdf odf mdf adf edf labs df1 df2 rdf where
    l: "load_and_normalize_data data = Inr (pdf, odf, mdf, adf)"
    and e: "enrich_patient_data strptime today pdf = Inr edf"
    and g: "get_latest_lab_values odf = Inr labs"
    and a1: "apply_diabetes_risk_rule labs = Inr df1"
    and a2: "apply_cardiovascular_risk_rule df1 = Inr df2"
    and c: "calculate_combined_risk df2 = Inr rdf"
    and m: "merge_left edf rdf = Inr df"
    and s: "summarize df = Inr s"
    by (rule score_patient_risks_Inr)
  have "rows pdf \<noteq> []"
    using load_and_normalize_data_Inr [OF l] normalize_patients_columns
      enrich_patient_data_columns [OF e] by blast
  then have "rows edf \<noteq> []"
    using enrich_patient_data_rows [OF e] by simp
  then show r: "rows df \<noteq> []"
    using merge_left_rows [OF m] by simp
  then have "total_patients s \<noteq> 0"
    using summarize_Inr(1) [OF s] by simp
  then show "diabetes_risk_percentage s =
           Some (of_nat (diabetes_risk_count s) / of_nat (total_patients s) * 100)"
    and "cardiovascular_risk_percentage s =
           Some (of_nat (cardiovascular_risk_count s) / of_nat (total_patients s) * 100)"
    using summarize_percentages [OF s] by (simp_all add: percentage_def)
qed

end
